theory Spec2Isabelle
  imports Complex_Main "HOL-Library.Char_ord" "HOL-Library.List_Lexorder"
begin

section \<open>Python values and exceptions\<close>

text \<open>
  A Python \<open>str\<close> is modelled as a \<open>string\<close> whose characters are the code points
  0..255. This is exactly the range of an HTTP header value as the web framework hands
  it to the handlers (header bytes are decoded as Latin-1). \<open>bytes\<close> are a \<open>string\<close>
  too, one character per byte.

  Every exception the source can raise is a value of \<open>error\<close>; a function that may raise
  returns \<open>error + 'a\<close> with \<open>Inl\<close> for the exception.
\<close>

datatype error =
    HTTPException nat string
  | ValueError string
  | TypeError string
  | KeyError string
  | IndexError string
  | AttributeError string
  | OSError string
  | OverflowError string
  | RuntimeError string

text \<open>\<open>s.split(sep, 1)\<close>: cut at the first separator, if there is one.\<close>

definition py_split1 :: "char \<Rightarrow> string \<Rightarrow> string list" where
  "py_split1 sep s =
     (if sep \<in> set s
      then [takeWhile (\<lambda>c. c \<noteq> sep) s, tl (dropWhile (\<lambda>c. c \<noteq> sep) s)]
      else [s])"

text \<open>
  \<open>str.lower()\<close> on the code points 0..255: the ASCII capitals and the Latin-1 capitals
  (U+00C0..U+00DE without the multiplication sign U+00D7) move up by 32.
\<close>

definition py_lower_char :: "char \<Rightarrow> char" where
  "py_lower_char c =
     (let n = (of_char c :: nat)
      in if (65 \<le> n \<and> n \<le> 90) \<or> (192 \<le> n \<and> n \<le> 222 \<and> n \<noteq> 215)
         then char_of (n + 32) else c)"

definition py_lower :: "string \<Rightarrow> string" where
  "py_lower s = map py_lower_char s"

definition py_isascii :: "string \<Rightarrow> bool" where
  "py_isascii s = list_all (\<lambda>c. (of_char c :: nat) < 128) s"

text \<open>
  \<open>hmac.compare_digest(a, b)\<close> on two \<open>str\<close> arguments: the standard library accepts
  ASCII-only strings and raises \<open>TypeError\<close> for any other; on ASCII strings the
  result is equality (the comparison time is not modelled).
\<close>

definition compare_digest :: "string \<Rightarrow> string \<Rightarrow> error + bool" where
  "compare_digest a b =
     (if py_isascii a \<and> py_isascii b then Inr (a = b)
      else Inl (TypeError ''comparing strings with non-ASCII characters is not supported''))"

section \<open>Identity and auth guard\<close>

text \<open>
  \<open>verify_secret_key\<close> (server.py). \<open>SECRET_KEY\<close> is the module constant read from the
  environment (empty when unset); \<open>authorization\<close> is the optional header.
  \<open>verify_secret_key_try\<close> is the body of the \<open>try\<close>, the bare \<open>except\<close> turns every
  exception of it into \<open>False\<close>.
\<close>

definition verify_secret_key_try :: "string \<Rightarrow> string \<Rightarrow> error + bool" where
  "verify_secret_key_try SECRET_KEY authorization =
     (case py_split1 CHR '' '' authorization of
        [scheme, token] \<Rightarrow>
          if py_lower scheme \<noteq> ''bearer'' then Inr False
          else compare_digest token SECRET_KEY
      | _ \<Rightarrow> Inl (ValueError ''not enough values to unpack (expected 2, got 1)''))"

definition verify_secret_key :: "string \<Rightarrow> string option \<Rightarrow> error + bool" where
  "verify_secret_key SECRET_KEY authorization =
     (if SECRET_KEY = []
      then Inl (ValueError ''POINT_E_SECRET_KEY must be configured for production use'')
      else case authorization of
        None \<Rightarrow> Inr False
      | Some a \<Rightarrow>
          if a = [] then Inr False
          else (case verify_secret_key_try SECRET_KEY a of
                  Inl e \<Rightarrow> Inr False
                | Inr b \<Rightarrow> Inr b))"

section \<open>Strings, numbers and dates as Python renders them\<close>

definition startswith :: "string \<Rightarrow> string \<Rightarrow> bool" where
  "startswith s p = (take (length p) s = p)"

definition endswith :: "string \<Rightarrow> string \<Rightarrow> bool" where
  "endswith s p = (length p \<le> length s \<and> drop (length s - length p) s = p)"

text \<open>\<open>sub in s\<close> for two \<open>str\<close>: \<open>sub\<close> occurs somewhere in \<open>s\<close>.\<close>

fun py_in :: "string \<Rightarrow> string \<Rightarrow> bool" where
  "py_in sub [] = (sub = [])"
| "py_in sub (c # cs) = (startswith (c # cs) sub \<or> py_in sub cs)"

text \<open>
  \<open>str.isspace\<close> and \<open>str.isalnum\<close> of one character, on the code points 0..255.
  Alphanumeric beyond ASCII are the Latin-1 letters, the superscript digits and the
  vulgar fractions.
\<close>

definition py_isspace :: "char \<Rightarrow> bool" where
  "py_isspace c =
     (let n = (of_char c :: nat)
      in (9 \<le> n \<and> n \<le> 13) \<or> (28 \<le> n \<and> n \<le> 32) \<or> n = 133 \<or> n = 160)"

definition py_isalnum :: "char \<Rightarrow> bool" where
  "py_isalnum c =
     (let n = (of_char c :: nat)
      in (48 \<le> n \<and> n \<le> 57) \<or> (65 \<le> n \<and> n \<le> 90) \<or> (97 \<le> n \<and> n \<le> 122)
         \<or> n = 170 \<or> n = 178 \<or> n = 179 \<or> n = 181 \<or> n = 185 \<or> n = 186
         \<or> (188 \<le> n \<and> n \<le> 190)
         \<or> (192 \<le> n \<and> n \<le> 214) \<or> (216 \<le> n \<and> n \<le> 246) \<or> 248 \<le> n)"

definition py_rstrip :: "string \<Rightarrow> string" where
  "py_rstrip s = rev (dropWhile py_isspace (rev s))"

definition py_strip :: "string \<Rightarrow> string" where
  "py_strip s = dropWhile py_isspace (py_rstrip s)"

text \<open>\<open>str(x)\<close> of an optional string: \<open>None\<close> prints as the word.\<close>

definition py_str :: "string option \<Rightarrow> string" where
  "py_str v = (case v of None \<Rightarrow> ''None'' | Some s \<Rightarrow> s)"

text \<open>The truth value of an optional string: \<open>None\<close> and the empty string are false.\<close>

definition truthy :: "string option \<Rightarrow> bool" where
  "truthy v = (case v of None \<Rightarrow> False | Some s \<Rightarrow> s \<noteq> [])"

text \<open>\<open>str.encode()\<close>: UTF-8 of the code points 0..255.\<close>

definition utf8_encode :: "string \<Rightarrow> string" where
  "utf8_encode s =
     concat (map (\<lambda>c. let n = (of_char c :: nat)
                       in if n < 128 then [c]
                          else [char_of (192 + n div 64), char_of (128 + n mod 64)]) s)"

text \<open>Decimal digits of a number, and the same padded with zeros to a width.\<close>

definition digit_char :: "nat \<Rightarrow> char" where
  "digit_char d = char_of (48 + d)"

fun str_nat :: "nat \<Rightarrow> string" where
  "str_nat n = (if n < 10 then [digit_char n] else str_nat (n div 10) @ [digit_char (n mod 10)])"

declare str_nat.simps [simp del]

definition str_int :: "int \<Rightarrow> string" where
  "str_int i = (if i < 0 then CHR ''-'' # str_nat (nat (- i)) else str_nat (nat i))"

definition pad0 :: "nat \<Rightarrow> nat \<Rightarrow> string" where
  "pad0 w n = replicate (w - length (str_nat n)) CHR ''0'' @ str_nat n"

text \<open>
  A reading of the clock (\<open>datetime.now()\<close>), to the second. The year of a reading has
  four digits, so \<open>%Y\<close> and the ISO date agree on it.
\<close>

record datetime =
  dt_year :: nat
  dt_month :: nat
  dt_day :: nat
  dt_hour :: nat
  dt_minute :: nat
  dt_second :: nat

definition strftime_directive :: "datetime \<Rightarrow> char \<Rightarrow> string" where
  "strftime_directive dt d =
     (if d = CHR ''Y'' then pad0 4 (dt_year dt)
      else if d = CHR ''m'' then pad0 2 (dt_month dt)
      else if d = CHR ''d'' then pad0 2 (dt_day dt)
      else if d = CHR ''H'' then pad0 2 (dt_hour dt)
      else if d = CHR ''M'' then pad0 2 (dt_minute dt)
      else if d = CHR ''S'' then pad0 2 (dt_second dt)
      else [CHR ''%'', d])"

fun strftime :: "datetime \<Rightarrow> string \<Rightarrow> string" where
  "strftime dt [] = []"
| "strftime dt [c] = [c]"
| "strftime dt (c # d # fmt) =
     (if c = CHR ''%'' then strftime_directive dt d @ strftime dt fmt
      else c # strftime dt (d # fmt))"

text \<open>\<open>datetime.date()\<close> and \<open>str\<close> of the date (\<open>YYYY-MM-DD\<close>).\<close>

definition date :: "datetime \<Rightarrow> nat \<times> nat \<times> nat" where
  "date dt = (dt_year dt, dt_month dt, dt_day dt)"

definition str_date :: "nat \<times> nat \<times> nat \<Rightarrow> string" where
  "str_date d = (case d of (y, m, dd) \<Rightarrow> pad0 4 y @ ''-'' @ pad0 2 m @ ''-'' @ pad0 2 dd)"

text \<open>A dictionary with string keys, in insertion order; \<open>dict.get(key, default)\<close>.\<close>

type_synonym 'v dict = "(string \<times> 'v) list"

definition dict_get :: "'v dict \<Rightarrow> string \<Rightarrow> 'v \<Rightarrow> 'v" where
  "dict_get d k dflt = (case map_of d k of None \<Rightarrow> dflt | Some v \<Rightarrow> v)"

section \<open>Derived identity\<close>

text \<open>
  \<open>generate_user_id\<close> (server.py). \<open>md5_hexdigest\<close> is \<open>hashlib.md5(b).hexdigest()\<close>, the
  standard library's hash, taken as it is; \<open>now\<close> is the reading \<open>datetime.now()\<close> takes
  inside the function. A header dictionary holds \<open>None\<close> for a header the request
  did not carry.
\<close>

definition generate_user_id ::
  "(string \<Rightarrow> string) \<Rightarrow> datetime \<Rightarrow> string option dict option \<Rightarrow> string" where
  "generate_user_id md5_hexdigest now request_headers =
     (let user_agent = (case request_headers of
                          None \<Rightarrow> Some ''''
                        | Some h \<Rightarrow> if h = [] then Some '''' else dict_get h ''user-agent'' (Some ''''));
          ip = (case request_headers of
                  None \<Rightarrow> Some ''''
                | Some h \<Rightarrow> if h = [] then Some '''' else dict_get h ''x-forwarded-for'' (Some ''''));
          unique_string = py_str user_agent @ py_str ip @ str_date (date now)
      in ''user_'' @ take 8 (md5_hexdigest (utf8_encode unique_string)))"

section \<open>Storage gateway\<close>

text \<open>\<open>get_storage_path\<close> (server.py); \<open>now\<close> is the clock reading it takes.\<close>

definition get_storage_path :: "datetime \<Rightarrow> string \<Rightarrow> string \<Rightarrow> string" where
  "get_storage_path now user_id filename =
     (let date_folder = strftime now ''%Y/%m/%d''
      in ''users/'' @ user_id @ ''/'' @ date_folder @ ''/'' @ filename)"

text \<open>
  The local file system: the directories that exist and the regular files with their
  bytes, both under the path as written (\<open>..\<close> is not resolved). Every call that
  takes a path refuses one that holds a NUL character (\<open>ValueError\<close>) and one whose
  encoding reaches 4096 bytes or has a component of more than 255 bytes
  (\<open>OSError\<close>, file name too long). \<open>os.makedirs(p, exist_ok=True)\<close> fails when \<open>p\<close>
  is a regular file; \<open>open(p, 'w')\<close> and \<open>open(p, 'wb')\<close> fail when \<open>p\<close> names a
  directory or its parent directory does not exist; \<open>os.path.exists\<close> answers
  \<open>False\<close> for a path the system refuses.
\<close>

record filesystem =
  fs_dirs :: "string set"
  fs_files :: "string \<rightharpoonup> string"

definition os_path_basename :: "string \<Rightarrow> string" where
  "os_path_basename p = rev (takeWhile (\<lambda>c. c \<noteq> CHR ''/'') (rev p))"

definition os_path_dirname :: "string \<Rightarrow> string" where
  "os_path_dirname p = rev (tl (dropWhile (\<lambda>c. c \<noteq> CHR ''/'') (rev p)))"

fun split_on :: "char \<Rightarrow> string \<Rightarrow> string list" where
  "split_on sep [] = [[]]"
| "split_on sep (c # cs) =
     (if c = sep then [] # split_on sep cs
      else (case split_on sep cs of
              [] \<Rightarrow> [[c]]
            | x # xs \<Rightarrow> (c # x) # xs))"

definition path_name_error :: "string \<Rightarrow> error option" where
  "path_name_error p =
     (if CHR 0x00 \<in> set p then Some (ValueError ''embedded null byte'')
      else if (4096 :: int) \<le> int (length (utf8_encode p))
              \<or> list_ex (\<lambda>c. (255 :: int) < int (length (utf8_encode c)))
                    (split_on CHR ''/'' p)
      then Some (OSError ''File name too long'')
      else None)"

definition os_path_exists :: "filesystem \<Rightarrow> string \<Rightarrow> bool" where
  "os_path_exists fs p =
     (path_name_error p = None \<and> (p \<in> fs_dirs fs \<or> fs_files fs p \<noteq> None))"

definition os_makedirs_exist_ok :: "filesystem \<Rightarrow> string \<Rightarrow> error + filesystem" where
  "os_makedirs_exist_ok fs p =
     (case path_name_error p of
        Some e \<Rightarrow> Inl e
      | None \<Rightarrow>
          if fs_files fs p \<noteq> None then Inl (OSError ''FileExistsError'')
          else Inr (fs\<lparr>fs_dirs := insert p (fs_dirs fs)\<rparr>))"

text \<open>\<open>open_error\<close> is the exception that opening \<open>p\<close> for writing raises, if any.\<close>

definition open_error :: "filesystem \<Rightarrow> string \<Rightarrow> error option" where
  "open_error fs p =
     (case path_name_error p of
        Some e \<Rightarrow> Some e
      | None \<Rightarrow>
          if p \<in> fs_dirs fs \<or> os_path_basename p \<in> {'''', ''.'', ''..''}
          then Some (OSError ''IsADirectoryError'')
          else if os_path_dirname p \<in> fs_dirs fs then None
          else Some (OSError ''FileNotFoundError''))"

definition open_write :: "filesystem \<Rightarrow> string \<Rightarrow> string \<Rightarrow> error + filesystem" where
  "open_write fs p content =
     (case open_error fs p of
        Some e \<Rightarrow> Inl e
      | None \<Rightarrow> Inr (fs\<lparr>fs_files := (fs_files fs)(p \<mapsto> content)\<rparr>))"

text \<open>
  \<open>save_to_local\<close> (server.py): the result and the file system it leaves.
\<close>

definition save_to_local :: "filesystem \<Rightarrow> string \<Rightarrow> string \<Rightarrow> (error + string) \<times> filesystem" where
  "save_to_local fs file_content filename =
     (case os_makedirs_exist_ok fs ''/tmp/point-e-models'' of
        Inl e \<Rightarrow> (Inl e, fs)
      | Inr fs1 \<Rightarrow>
          (let local_path = ''/tmp/point-e-models/'' @ filename
           in case open_write fs1 local_path file_content of
                Inl e \<Rightarrow> (Inl e, fs1)
              | Inr fs2 \<Rightarrow> (Inr (''/download/'' @ filename), fs2)))"

text \<open>
  \<open>download\<close> (server.py). \<open>FileResponse\<close> sends the bytes of the file at the path; it
  fails when the path is not a regular file.
\<close>

record file_response =
  fr_path :: string
  fr_filename :: string
  fr_body :: string

definition FileResponse :: "filesystem \<Rightarrow> string \<Rightarrow> string \<Rightarrow> error + file_response" where
  "FileResponse fs p filename =
     (case fs_files fs p of
        None \<Rightarrow> Inl (RuntimeError ''File at path is not a file.'')
      | Some b \<Rightarrow> Inr \<lparr>fr_path = p, fr_filename = filename, fr_body = b\<rparr>)"

definition download :: "filesystem \<Rightarrow> string \<Rightarrow> error + file_response" where
  "download fs filename =
     (let filepath = ''/tmp/point-e-models/'' @ filename
      in if \<not> os_path_exists fs filepath
         then Inl (HTTPException 404 ''File not found'')
         else FileResponse fs filepath filename)"

section \<open>Floating-point scalars\<close>

text \<open>
  A scalar of a NumPy array or a Python float: a finite value of the 32-bit or the
  64-bit binary format, held as the rational number it stands for, or an infinity, or
  NaN. \<open>round_to\<close> is the rounding of an exact result to the nearest value of the
  format, ties to the even significand, with the subnormal range below \<open>min_exp\<close> and
  overflow to an infinity.
\<close>

datatype dtype = float32 | float64

datatype npfloat = Finite dtype rat | PosInf | NegInf | NaN

definition mant_bits :: "dtype \<Rightarrow> int" where
  "mant_bits d = (case d of float32 \<Rightarrow> 24 | float64 \<Rightarrow> 53)"

definition max_exp :: "dtype \<Rightarrow> int" where
  "max_exp d = (case d of float32 \<Rightarrow> 127 | float64 \<Rightarrow> 1023)"

definition min_exp :: "dtype \<Rightarrow> int" where
  "min_exp d = (case d of float32 \<Rightarrow> - 126 | float64 \<Rightarrow> - 1022)"

function bit_length :: "int \<Rightarrow> int" where
  "bit_length n = (if n \<le> 0 then 0 else 1 + bit_length (n div 2))"
  by pat_completeness auto
termination
  by (relation "measure nat") auto

declare bit_length.simps [simp del]

definition pow2 :: "int \<Rightarrow> rat" where
  "pow2 k = (if 0 \<le> k then 2 ^ nat k else 1 / 2 ^ nat (- k))"

text \<open>For a positive \<open>x\<close>, the exponent \<open>e\<close> with \<open>2^e \<le> x < 2^(e+1)\<close>.\<close>

definition floor_log2 :: "rat \<Rightarrow> int" where
  "floor_log2 x =
     (case quotient_of x of (a, b) \<Rightarrow>
        (let e0 = bit_length a - bit_length b
         in if pow2 e0 \<le> x then e0 else e0 - 1))"

definition round_half_even :: "rat \<Rightarrow> int" where
  "round_half_even q =
     (let f = \<lfloor>q\<rfloor>; d = q - of_int f
      in if d < 1/2 then f
         else if 1/2 < d then f + 1
         else if even f then f else f + 1)"

definition round_to :: "dtype \<Rightarrow> rat \<Rightarrow> npfloat" where
  "round_to d x =
     (if x = 0 then Finite d 0
      else (let e = max (floor_log2 \<bar>x\<bar>) (min_exp d);
                ulp = pow2 (e - mant_bits d + 1);
                y = of_int (round_half_even (x / ulp)) * ulp
            in if pow2 (max_exp d + 1) \<le> \<bar>y\<bar>
               then (if 0 < x then PosInf else NegInf)
               else Finite d y))"

text \<open>
  \<open>c * 255\<close> for a scalar \<open>c\<close>: the product stays in the format of \<open>c\<close>. \<open>int(v)\<close>
  truncates toward zero and raises for an infinity and for NaN.
\<close>

definition times_255 :: "npfloat \<Rightarrow> npfloat" where
  "times_255 c =
     (case c of
        Finite d x \<Rightarrow> round_to d (x * 255)
      | PosInf \<Rightarrow> PosInf
      | NegInf \<Rightarrow> NegInf
      | NaN \<Rightarrow> NaN)"

definition py_int :: "npfloat \<Rightarrow> error + int" where
  "py_int v =
     (case v of
        Finite d x \<Rightarrow> Inr (if 0 \<le> x then \<lfloor>x\<rfloor> else \<lceil>x\<rceil>)
      | PosInf \<Rightarrow> Inl (OverflowError ''cannot convert float infinity to integer'')
      | NegInf \<Rightarrow> Inl (OverflowError ''cannot convert float infinity to integer'')
      | NaN \<Rightarrow> Inl (ValueError ''cannot convert float NaN to integer''))"

section \<open>The inference collaborator and the outside world\<close>

text \<open>
  A point cloud as the sampler returns it: \<open>coords\<close> is the sequence of points,
  \<open>channels\<close> maps a channel name to its per-point values. A mesh is read only through
  the lengths of its vertex and face sequences and through its own \<open>write_ply\<close>.
\<close>

record PointCloud =
  coords :: "(npfloat \<times> npfloat \<times> npfloat) list"
  channels :: "npfloat list dict"

record TriMesh =
  verts :: "(npfloat \<times> npfloat \<times> npfloat) list"
  faces :: "(nat \<times> nat \<times> nat) list"

text \<open>
  An object of the storage bucket. \<open>time_created\<close> is the creation time as
  \<open>isoformat()\<close> prints it, \<open>None\<close> when the backend gives none.
\<close>

record blob =
  blob_name :: string
  blob_data :: string
  content_type :: string
  time_created :: "string option"

text \<open>
  Everything a request reads from outside the process, and every collaborator it
  calls, as one value:
  \<^item> the readings \<open>datetime.now()\<close> takes at its call sites, the random identifier
    \<open>str(uuid.uuid4())\<close>, the standard library's MD5, the text \<open>str(e)\<close> of an
    exception and the text \<open>str(x)\<close> of a scalar, which never raises;
  \<^item> the inference collaborator: the point cloud that progressive sampling ends with
    for a prompt or an image, the mesh reconstruction, the mesh's PLY bytes, the image
    decoder;
  \<^item> the storage backend: whether an upload, a signed URL or a listing fails, the URL
    text for a path and a lifetime, and the creation time the backend stamps on an
    object.
  \<^item> for local_server.py: the name of the device \<open>get_device\<close> detects, and the
    rounded time a generation took.
\<close>

datatype timedelta = Days nat | Hours nat

record env =
  now_user_id :: datetime
  now_timestamp :: datetime
  now_storage_path :: datetime
  expires_at_iso :: string
  uuid4 :: string
  md5_hexdigest :: "string \<Rightarrow> string"
  str_exc :: "error \<Rightarrow> string"
  str_float :: "npfloat \<Rightarrow> string"
  sample_batch_text :: "string \<Rightarrow> error + PointCloud"
  sample_batch_image :: "string \<Rightarrow> error + PointCloud"
  marching_cubes_mesh :: "PointCloud \<Rightarrow> int \<Rightarrow> error + TriMesh"
  write_ply :: "TriMesh \<Rightarrow> string"
  Image_open :: "string \<Rightarrow> error + string"
  upload_from_string :: "string \<Rightarrow> error option"
  generate_signed_url :: "string \<Rightarrow> timedelta \<Rightarrow> error + string"
  list_blobs_error :: "string \<Rightarrow> error option"
  backend_time_created :: "string \<Rightarrow> string option"
  device_name :: string
  elapsed :: npfloat

text \<open>
  The module globals of server.py and local_server.py with the stores they reach, and counters of the
  collaborator's invocations. \<open>gcs_client\<close> is \<open>None\<close> or the bucket as the client sees
  it; a model or sampler global is \<open>None\<close> or the name of the checkpoint it was built
  from. \<open>mesh_calls\<close> lists the grid sizes handed to the mesh reconstruction, latest
  first.
\<close>

record state =
  SECRET_KEY :: string
  text_model :: "string option"
  text_sampler :: "string option"
  image_model :: "string option"
  image_sampler :: "string option"
  sdf_model :: "string option"
  models_ready :: bool
  device :: "string option"
  gcs_client :: "blob list option"
  disk :: filesystem
  sample_calls :: nat
  image_sample_calls :: nat
  mesh_calls :: "int list"

section \<open>Asset catalog\<close>

text \<open>
  \<open>get_user_models\<close> (server.py). \<open>list_blobs(prefix)\<close> yields the objects whose name
  starts with the prefix, in the bucket's order; the loop keeps the PLY files;
  \<open>sorted(..., reverse=True)\<close> is stable, so entries with equal keys keep their order.
\<close>

record model_entry =
  me_filename :: string
  me_path :: string
  me_download_url :: string
  me_created :: "string option"
  me_size :: nat
  me_type :: string

record UserModelsResponse =
  umr_user_id :: string
  umr_models :: "model_entry list"
  umr_total_count :: nat

definition list_blobs :: "env \<Rightarrow> blob list \<Rightarrow> string \<Rightarrow> error + blob list" where
  "list_blobs env bucket pfx =
     (case list_blobs_error env pfx of
        Some e \<Rightarrow> Inl e
      | None \<Rightarrow> Inr (filter (\<lambda>b. startswith (blob_name b) pfx) bucket))"

fun collect_models :: "env \<Rightarrow> blob list \<Rightarrow> error + model_entry list" where
  "collect_models env [] = Inr []"
| "collect_models env (b # bs) =
     (if endswith (blob_name b) ''.ply''
      then (case generate_signed_url env (blob_name b) (Hours 1) of
              Inl e \<Rightarrow> Inl e
            | Inr url \<Rightarrow>
                (case collect_models env bs of
                   Inl e \<Rightarrow> Inl e
                 | Inr ms \<Rightarrow>
                     Inr (\<lparr>me_filename = os_path_basename (blob_name b),
                           me_path = blob_name b,
                           me_download_url = url,
                           me_created = time_created b,
                           me_size = length (blob_data b),
                           me_type = (if py_in ''mesh_'' (blob_name b) then ''mesh''
                                      else ''pointcloud'')\<rparr> # ms)))
      else collect_models env bs)"

definition created_key :: "model_entry \<Rightarrow> string" where
  "created_key x = (case me_created x of None \<Rightarrow> '''' | Some c \<Rightarrow> c)"

definition sorted_reverse :: "('a \<Rightarrow> string) \<Rightarrow> 'a list \<Rightarrow> 'a list" where
  "sorted_reverse key xs = rev (sort_key key (rev xs))"

definition get_user_models_try ::
  "env \<Rightarrow> blob list \<Rightarrow> string \<Rightarrow> error + UserModelsResponse" where
  "get_user_models_try env bucket user_id =
     (case list_blobs env bucket (''users/'' @ user_id @ ''/'') of
        Inl e \<Rightarrow> Inl e
      | Inr blobs \<Rightarrow>
          (case collect_models env blobs of
             Inl e \<Rightarrow> Inl e
           | Inr models \<Rightarrow>
               Inr \<lparr>umr_user_id = user_id,
                    umr_models = sorted_reverse created_key models,
                    umr_total_count = length models\<rparr>))"

definition get_user_models :: "env \<Rightarrow> state \<Rightarrow> string \<Rightarrow> error + UserModelsResponse" where
  "get_user_models env s user_id =
     (case gcs_client s of
        None \<Rightarrow> Inl (HTTPException 503 ''Storage not available'')
      | Some bucket \<Rightarrow>
          (case get_user_models_try env bucket user_id of
             Inl e \<Rightarrow> Inl (HTTPException 500 (''Failed to list user models: '' @ str_exc env e))
           | Inr r \<Rightarrow> Inr r))"

section \<open>Serialization codec\<close>

text \<open>
  The ASCII PLY writer for point clouds. The source has it twice, word for word: in
  \<open>save_pointcloud_ply\<close> and inline in \<open>text_to_3d\<close>. \<open>ply_write\<close> is that shared body: it
  gives the text written so far and the exception that stopped it, if one did.
  \<open>colors['G'][i]\<close> raises \<open>KeyError\<close> for a missing channel and \<open>IndexError\<close> past the
  channel's end.
\<close>

definition channel_at :: "npfloat list dict \<Rightarrow> string \<Rightarrow> nat \<Rightarrow> error + npfloat" where
  "channel_at colors k i =
     (case map_of colors k of
        None \<Rightarrow> Inl (KeyError k)
      | Some v \<Rightarrow> if i < length v then Inr (v ! i)
                 else Inl (IndexError ''index is out of bounds for axis 0''))"

definition ply_header :: "PointCloud \<Rightarrow> string" where
  "ply_header pc =
     ''ply\<newline>format ascii 1.0\<newline>''
     @ ''element vertex '' @ str_nat (length (coords pc)) @ ''\<newline>''
     @ ''property float x\<newline>property float y\<newline>property float z\<newline>''
     @ (if map_of (channels pc) ''R'' \<noteq> None
        then ''property uchar red\<newline>property uchar green\<newline>property uchar blue\<newline>''
        else '''')
     @ ''end_header\<newline>''"

text \<open>
  \<open>int(colors[k][i] * 255)\<close>: the look-up, the product in the scalar's format, the
  truncation. The three are evaluated in the order R, G, B, so the first that raises
  decides the exception.
\<close>

definition scaled_colour :: "npfloat list dict \<Rightarrow> string \<Rightarrow> nat \<Rightarrow> error + int" where
  "scaled_colour colors k i =
     (case channel_at colors k i of
        Inl e \<Rightarrow> Inl e
      | Inr c \<Rightarrow> py_int (times_255 c))"

definition ply_vertex :: "env \<Rightarrow> PointCloud \<Rightarrow> nat \<Rightarrow> error + string" where
  "ply_vertex env pc i =
     (if length (coords pc) \<le> i then Inl (IndexError ''index is out of bounds for axis 0'')
      else case coords pc ! i of (x, y, z) \<Rightarrow>
        if map_of (channels pc) ''R'' \<noteq> None
        then (case scaled_colour (channels pc) ''R'' i of
                Inl e \<Rightarrow> Inl e
              | Inr r \<Rightarrow>
             (case scaled_colour (channels pc) ''G'' i of
                Inl e \<Rightarrow> Inl e
              | Inr g \<Rightarrow>
             (case scaled_colour (channels pc) ''B'' i of
                Inl e \<Rightarrow> Inl e
              | Inr b \<Rightarrow>
                  Inr (str_float env x @ '' '' @ str_float env y @ '' '' @ str_float env z
                       @ '' '' @ str_int r @ '' '' @ str_int g @ '' '' @ str_int b
                       @ ''\<newline>''))))
        else Inr (str_float env x @ '' '' @ str_float env y @ '' '' @ str_float env z
                  @ ''\<newline>''))"

text \<open>The loop \<open>for i in range(len(coords))\<close>, over the indices still to write.\<close>

fun ply_vertices :: "env \<Rightarrow> PointCloud \<Rightarrow> nat list \<Rightarrow> string \<times> error option" where
  "ply_vertices env pc [] = ([], None)"
| "ply_vertices env pc (i # rest) =
     (case ply_vertex env pc i of
        Inl e \<Rightarrow> ([], Some e)
      | Inr line \<Rightarrow>
          (case ply_vertices env pc rest of (written, stopped) \<Rightarrow> (line @ written, stopped)))"

definition ply_write :: "env \<Rightarrow> PointCloud \<Rightarrow> string \<times> error option" where
  "ply_write env pc =
     (case ply_vertices env pc [0..<length (coords pc)] of
        (written, stopped) \<Rightarrow> (ply_header pc @ written, stopped))"

text \<open>
  \<open>save_pointcloud_ply\<close> (server.py): the file is opened for writing as text and holds
  whatever was written, encoded, when an exception leaves the \<open>with\<close> block.
\<close>

definition save_pointcloud_ply ::
  "env \<Rightarrow> filesystem \<Rightarrow> PointCloud \<Rightarrow> string \<Rightarrow> (error + unit) \<times> filesystem" where
  "save_pointcloud_ply env fs pc filepath =
     (case ply_write env pc of (written, stopped) \<Rightarrow>
        (case open_write fs filepath (utf8_encode written) of
           Inl e \<Rightarrow> (Inl e, fs)
         | Inr fs' \<Rightarrow> (case stopped of None \<Rightarrow> (Inr (), fs') | Some e \<Rightarrow> (Inl e, fs'))))"

section \<open>Generation orchestrator (server.py)\<close>

text \<open>
  What the handlers read of the HTTP request: the headers under their lower-case names
  (the parameters \<open>user_agent\<close>, \<open>x_forwarded_for\<close> and \<open>authorization\<close> are the headers of
  those names, \<open>None\<close> when absent) and the peer address, \<open>None\<close> when the server gives
  no \<open>request.client\<close>.
\<close>

record Request =
  headers :: "string dict"
  client_host :: "string option"

record TextRequest =
  tr_prompt :: string
  tr_user_id :: "string option"
  tr_format :: string
  tr_grid_size :: int
  tr_num_samples :: int

record UploadFile =
  uf_filename :: "string option"
  uf_data :: string

record GenerationResponse =
  gr_success :: bool
  gr_message :: string
  gr_file_url :: "string option"
  gr_download_url :: "string option"
  gr_user_id :: "string option"
  gr_vertices :: "nat option"
  gr_faces :: "nat option"
  gr_expires_at :: "string option"

definition get_forwarded_ip :: "Request \<Rightarrow> error + string" where
  "get_forwarded_ip request =
     (let forwarded_for = map_of (headers request) ''x-forwarded-for'';
          real_ip = map_of (headers request) ''x-real-ip'';
          original_ip = map_of (headers request) ''x-original-ip''
      in if truthy forwarded_for
         then Inr (py_strip (takeWhile (\<lambda>c. c \<noteq> CHR '','') (py_str forwarded_for)))
         else if truthy real_ip then Inr (py_str real_ip)
         else if truthy original_ip then Inr (py_str original_ip)
         else (case client_host request of
                 None \<Rightarrow> Inl (AttributeError ''NoneType object has no attribute host'')
               | Some host \<Rightarrow> Inr host))"

text \<open>
  The three guarded calls into the collaborator. Each one that passes its guard counts
  as an invocation, whatever the collaborator then returns or raises.
\<close>

definition generate_from_text ::
  "env \<Rightarrow> state \<Rightarrow> string \<Rightarrow> (error + PointCloud) \<times> state" where
  "generate_from_text env s prompt =
     (if \<not> models_ready s \<or> text_sampler s = None
      then (Inl (HTTPException 503 ''Models not ready''), s)
      else (sample_batch_text env prompt, s\<lparr>sample_calls := sample_calls s + 1\<rparr>))"

definition generate_from_image ::
  "env \<Rightarrow> state \<Rightarrow> string \<Rightarrow> (error + PointCloud) \<times> state" where
  "generate_from_image env s img =
     (if \<not> models_ready s \<or> image_sampler s = None
      then (Inl (HTTPException 503 ''Image model not ready''), s)
      else (sample_batch_image env img, s\<lparr>image_sample_calls := image_sample_calls s + 1\<rparr>))"

definition pointcloud_to_mesh ::
  "env \<Rightarrow> state \<Rightarrow> PointCloud \<Rightarrow> int \<Rightarrow> (error + TriMesh) \<times> state" where
  "pointcloud_to_mesh env s pc grid_size =
     (if \<not> models_ready s \<or> sdf_model s = None
      then (Inl (HTTPException 503 ''SDF model not ready''), s)
      else (marching_cubes_mesh env pc grid_size, s\<lparr>mesh_calls := grid_size # mesh_calls s\<rparr>))"

text \<open>
  \<open>save_to_gcs\<close> (server.py): \<open>None\<close> without a client and on any failure. An upload
  that succeeded stays in the bucket when only the signed URL fails.
\<close>

definition put_blob :: "blob list \<Rightarrow> blob \<Rightarrow> blob list" where
  "put_blob bucket b = filter (\<lambda>x. blob_name x \<noteq> blob_name b) bucket @ [b]"

definition save_to_gcs ::
  "env \<Rightarrow> state \<Rightarrow> string \<Rightarrow> string \<Rightarrow> string \<Rightarrow> string option \<times> state" where
  "save_to_gcs env s file_content storage_path ctype =
     (case gcs_client s of
        None \<Rightarrow> (None, s)
      | Some bucket \<Rightarrow>
          (case upload_from_string env storage_path of
             Some e \<Rightarrow> (None, s)
           | None \<Rightarrow>
               (let s' = s\<lparr>gcs_client := Some (put_blob bucket
                              \<lparr>blob_name = storage_path, blob_data = file_content,
                               content_type = ctype,
                               time_created = backend_time_created env storage_path\<rparr>)\<rparr>
                in case generate_signed_url env storage_path (Days 30) of
                     Inl e \<Rightarrow> (None, s')
                   | Inr url \<Rightarrow> (Some url, s'))))"

text \<open>
  The block each branch of the handlers repeats: try the bucket first, fall back to
  the local directory. It gives \<open>(file_url, download_url)\<close>.
\<close>

definition save_gcs_or_local ::
  "env \<Rightarrow> state \<Rightarrow> string \<Rightarrow> string \<Rightarrow> string \<Rightarrow> (error + string \<times> string) \<times> state" where
  "save_gcs_or_local env s user_id filename content =
     (case (if gcs_client s \<noteq> None
            then save_to_gcs env s content
                   (get_storage_path (now_storage_path env) user_id filename) ''model/ply''
            else (None, s)) of
        (download_url, s1) \<Rightarrow>
          if \<not> truthy download_url
          then (case save_to_local (disk s1) content filename of
                  (Inl e, fs) \<Rightarrow> (Inl e, s1\<lparr>disk := fs\<rparr>)
                | (Inr file_url, fs) \<Rightarrow> (Inr (file_url, file_url), s1\<lparr>disk := fs\<rparr>))
          else (Inr (''/gcs/'' @ filename, py_str download_url), s1))"

definition derived_user_id :: "env \<Rightarrow> Request \<Rightarrow> string option \<Rightarrow> string" where
  "derived_user_id env req given =
     (if truthy given then py_str given
      else generate_user_id (md5_hexdigest env) (now_user_id env)
             (Some [(''user-agent'', map_of (headers req) ''user-agent''),
                    (''x-forwarded-for'', map_of (headers req) ''x-forwarded-for'')]))"

definition safe_prompt_of :: "string \<Rightarrow> string" where
  "safe_prompt_of prompt =
     take 30 (py_rstrip (filter (\<lambda>c. py_isalnum c \<or> c \<in> {CHR '' '', CHR ''-'', CHR ''_''}) prompt))"

text \<open>The body of the \<open>try\<close> of \<open>text_to_3d\<close>.\<close>

definition text_to_3d_try ::
  "env \<Rightarrow> state \<Rightarrow> Request \<Rightarrow> TextRequest \<Rightarrow> (error + GenerationResponse) \<times> state" where
  "text_to_3d_try env s req request =
     (let user_id = derived_user_id env req (tr_user_id request)
      in case generate_from_text env s (tr_prompt request) of
           (Inl e, s1) \<Rightarrow> (Inl e, s1)
         | (Inr pc, s1) \<Rightarrow>
        (let request_id = take 8 (uuid4 env);
             timestamp = strftime (now_timestamp env) ''%Y%m%d_%H%M%S'';
             safe_prompt = safe_prompt_of (tr_prompt request)
         in if tr_format request = ''mesh''
            then (case pointcloud_to_mesh env s1 pc (tr_grid_size request) of
                    (Inl e, s2) \<Rightarrow> (Inl e, s2)
                  | (Inr mesh, s2) \<Rightarrow>
                 (let mesh_content = write_ply env mesh;
                      filename = ''mesh_'' @ safe_prompt @ ''_'' @ timestamp @ ''_''
                                 @ request_id @ ''.ply''
                  in case save_gcs_or_local env s2 user_id filename mesh_content of
                       (Inl e, s3) \<Rightarrow> (Inl e, s3)
                     | (Inr (file_url, download_url), s3) \<Rightarrow>
                         (Inr \<lparr>gr_success = True,
                               gr_message = ''Generated mesh: '' @ tr_prompt request,
                               gr_file_url = Some file_url,
                               gr_download_url = Some download_url,
                               gr_user_id = Some user_id,
                               gr_vertices = Some (length (verts mesh)),
                               gr_faces = Some (length (faces mesh)),
                               gr_expires_at = Some (expires_at_iso env)\<rparr>, s3)))
            else (case ply_write env pc of
                    (written, Some e) \<Rightarrow> (Inl e, s1)
                  | (written, None) \<Rightarrow>
                 (let ply_bytes = utf8_encode written;
                      filename = ''pointcloud_'' @ safe_prompt @ ''_'' @ timestamp @ ''_''
                                 @ request_id @ ''.ply''
                  in case save_gcs_or_local env s1 user_id filename ply_bytes of
                       (Inl e, s3) \<Rightarrow> (Inl e, s3)
                     | (Inr (file_url, download_url), s3) \<Rightarrow>
                         (Inr \<lparr>gr_success = True,
                               gr_message = ''Generated point cloud: '' @ tr_prompt request,
                               gr_file_url = Some file_url,
                               gr_download_url = Some download_url,
                               gr_user_id = Some user_id,
                               gr_vertices = Some (length (coords pc)),
                               gr_faces = Some 0,
                               gr_expires_at = Some (expires_at_iso env)\<rparr>, s3)))))"

text \<open>
  \<open>text_to_3d\<close> (server.py), the handler of \<open>POST /generate/text\<close>. The credential check
  and \<open>get_forwarded_ip\<close> run before the \<open>try\<close>; \<open>except Exception\<close> catches whatever
  the body raises, an \<open>HTTPException\<close> included, and raises status 500 in its place.
\<close>

definition text_to_3d ::
  "env \<Rightarrow> state \<Rightarrow> Request \<Rightarrow> TextRequest \<Rightarrow> (error + GenerationResponse) \<times> state" where
  "text_to_3d env s req request =
     (case verify_secret_key (SECRET_KEY s) (map_of (headers req) ''authorization'') of
        Inl e \<Rightarrow> (Inl e, s)
      | Inr ok \<Rightarrow>
          if \<not> ok
          then (Inl (HTTPException 401 ''Invalid or missing authentication token''), s)
          else (case get_forwarded_ip req of
                  Inl e \<Rightarrow> (Inl e, s)
                | Inr original_ip \<Rightarrow>
                    (case text_to_3d_try env s req request of
                       (Inl e, s') \<Rightarrow> (Inl (HTTPException 500 (str_exc env e)), s')
                     | (Inr r, s') \<Rightarrow> (Inr r, s'))))"

text \<open>
  \<open>image_to_3d\<close> (server.py), the handler of \<open>POST /generate/image\<close>. For a format other
  than \<open>mesh\<close> the body ends without a response (\<open>pass\<close>).
\<close>

definition splitext_root :: "string \<Rightarrow> string" where
  "splitext_root p =
     (let base = os_path_basename p;
          stem = rev (tl (dropWhile (\<lambda>c. c \<noteq> CHR ''.'') (rev base)))
      in if CHR ''.'' \<in> set base \<and> list_ex (\<lambda>c. c \<noteq> CHR ''.'') stem
         then take (length p - (length base - length stem)) p
         else p)"

definition image_to_3d_try ::
  "env \<Rightarrow> state \<Rightarrow> Request \<Rightarrow> UploadFile \<Rightarrow> string \<Rightarrow> int \<Rightarrow> string option \<Rightarrow>
   (error + GenerationResponse option) \<times> state" where
  "image_to_3d_try env s req file format grid_size given_user_id =
     (if \<not> models_ready s \<or> image_sampler s = None
      then (Inl (HTTPException 503 ''Image model not ready''), s)
      else
       (let user_id = derived_user_id env req given_user_id
        in case Image_open env (uf_data file) of
             Inl e \<Rightarrow> (Inl e, s)
           | Inr img \<Rightarrow>
          (case generate_from_image env s img of
             (Inl e, s1) \<Rightarrow> (Inl e, s1)
           | (Inr pc, s1) \<Rightarrow>
          (let request_id = take 8 (uuid4 env);
               timestamp = strftime (now_timestamp env) ''%Y%m%d_%H%M%S'';
               original_name = take 20 (splitext_root
                                 (if truthy (uf_filename file) then py_str (uf_filename file)
                                  else ''image''))
           in if format = ''mesh''
              then (case pointcloud_to_mesh env s1 pc grid_size of
                      (Inl e, s2) \<Rightarrow> (Inl e, s2)
                    | (Inr mesh, s2) \<Rightarrow>
                   (let mesh_content = write_ply env mesh;
                        filename = ''mesh_from_'' @ original_name @ ''_'' @ timestamp @ ''_''
                                   @ request_id @ ''.ply''
                    in case save_gcs_or_local env s2 user_id filename mesh_content of
                         (Inl e, s3) \<Rightarrow> (Inl e, s3)
                       | (Inr (file_url, download_url), s3) \<Rightarrow>
                           (Inr (Some \<lparr>gr_success = True,
                                       gr_message = ''Generated mesh from image'',
                                       gr_file_url = Some file_url,
                                       gr_download_url = Some download_url,
                                       gr_user_id = Some user_id,
                                       gr_vertices = Some (length (verts mesh)),
                                       gr_faces = Some (length (faces mesh)),
                                       gr_expires_at = Some (expires_at_iso env)\<rparr>), s3)))
              else (Inr None, s1)))))"

definition image_to_3d ::
  "env \<Rightarrow> state \<Rightarrow> Request \<Rightarrow> UploadFile \<Rightarrow> string \<Rightarrow> int \<Rightarrow> string option \<Rightarrow>
   (error + GenerationResponse option) \<times> state" where
  "image_to_3d env s req file format grid_size given_user_id =
     (case verify_secret_key (SECRET_KEY s) (map_of (headers req) ''authorization'') of
        Inl e \<Rightarrow> (Inl e, s)
      | Inr ok \<Rightarrow>
          if \<not> ok
          then (Inl (HTTPException 401 ''Invalid or missing authentication token''), s)
          else (case get_forwarded_ip req of
                  Inl e \<Rightarrow> (Inl e, s)
                | Inr original_ip \<Rightarrow>
                    (case image_to_3d_try env s req file format grid_size given_user_id of
                       (Inl e, s') \<Rightarrow> (Inl (HTTPException 500 (str_exc env e)), s')
                     | (Inr r, s') \<Rightarrow> (Inr r, s'))))"

section \<open>Readiness gate: loading the models\<close>

text \<open>
  What loading meets outside the process: for each checkpoint name, whether building the
  model, building its diffusion, loading its weights or constructing the sampler
  around it raises (\<open>None\<close>: it does not); whether remote storage is enabled, and the
  storage client or the exception its construction raises.
\<close>

record loader =
  model_from_config :: "string \<Rightarrow> error option"
  diffusion_from_config :: "string \<Rightarrow> error option"
  load_checkpoint :: "string \<Rightarrow> error option"
  PointCloudSampler :: "string \<Rightarrow> error option"
  get_device :: string
  ENABLE_GCS :: bool
  storage_Client :: "error + blob list"

text \<open>
  One statement of a loading sequence: it raises, or it assigns. A sequence stops at
  the first statement that raises and keeps the assignments made before it.
\<close>

definition step :: "error option \<Rightarrow> (state \<Rightarrow> state) \<Rightarrow> state \<Rightarrow> error + state" where
  "step outcome assign s = (case outcome of Some e \<Rightarrow> Inl e | None \<Rightarrow> Inr (assign s))"

fun run_steps :: "(state \<Rightarrow> error + state) list \<Rightarrow> state \<Rightarrow> error option \<times> state" where
  "run_steps [] s = (None, s)"
| "run_steps (f # fs) s = (case f s of Inl e \<Rightarrow> (Some e, s) | Inr s' \<Rightarrow> run_steps fs s')"

text \<open>
  \<open>setup_gcs\<close> (server.py) catches its own exceptions; a failing client leaves
  \<open>gcs_client\<close> at \<open>None\<close>. Errors of the bucket set-up are printed and change nothing.
\<close>

definition setup_gcs :: "loader \<Rightarrow> state \<Rightarrow> state" where
  "setup_gcs L s =
     (if \<not> ENABLE_GCS L then s
      else case storage_Client L of
             Inl e \<Rightarrow> s\<lparr>gcs_client := None\<rparr>
           | Inr bucket \<Rightarrow> s\<lparr>gcs_client := Some bucket\<rparr>)"

definition text_steps :: "loader \<Rightarrow> (state \<Rightarrow> error + state) list" where
  "text_steps L =
     [step (model_from_config L ''base40M-textvec'') (\<lambda>s. s\<lparr>text_model := Some ''base40M-textvec''\<rparr>),
      step (diffusion_from_config L ''base40M-textvec'') (\<lambda>s. s),
      step (model_from_config L ''upsample'') (\<lambda>s. s),
      step (diffusion_from_config L ''upsample'') (\<lambda>s. s),
      step (load_checkpoint L ''base40M-textvec'') (\<lambda>s. s),
      step (load_checkpoint L ''upsample'') (\<lambda>s. s),
      step (PointCloudSampler L ''base40M-textvec'')
        (\<lambda>s. s\<lparr>text_sampler := Some ''base40M-textvec''\<rparr>)]"

definition image_steps :: "loader \<Rightarrow> (state \<Rightarrow> error + state) list" where
  "image_steps L =
     [step (model_from_config L ''base1B'') (\<lambda>s. s\<lparr>image_model := Some ''base1B''\<rparr>),
      step (diffusion_from_config L ''base1B'') (\<lambda>s. s),
      step (load_checkpoint L ''base1B'') (\<lambda>s. s),
      step (PointCloudSampler L ''base1B'') (\<lambda>s. s\<lparr>image_sampler := Some ''base1B''\<rparr>)]"

definition sdf_steps :: "loader \<Rightarrow> (state \<Rightarrow> error + state) list" where
  "sdf_steps L =
     [step (model_from_config L ''sdf'') (\<lambda>s. s\<lparr>sdf_model := Some ''sdf''\<rparr>),
      step (load_checkpoint L ''sdf'') (\<lambda>s. s)]"

text \<open>
  \<open>load_models_fast\<close> (server.py): one \<open>try\<close> around everything, the image model
  included; any exception clears \<open>models_ready\<close> and is raised again.
\<close>

definition load_models_fast :: "loader \<Rightarrow> state \<Rightarrow> (error + unit) \<times> state" where
  "load_models_fast L s =
     (case run_steps
             (text_steps L @ image_steps L @ sdf_steps L
              @ [\<lambda>s. Inr (s\<lparr>models_ready := True\<rparr>), \<lambda>s. Inr (setup_gcs L s)]) s of
        (Some e, s') \<Rightarrow> (Inl e, s'\<lparr>models_ready := False\<rparr>)
      | (None, s') \<Rightarrow> (Inr (), s'))"

text \<open>
  \<open>load_models\<close> (local_server.py): the image model has a \<open>try\<close> of its own, whose
  \<open>except\<close> resets both image globals and goes on.
\<close>

definition load_image_optional :: "loader \<Rightarrow> state \<Rightarrow> error + state" where
  "load_image_optional L s =
     (case run_steps (image_steps L) s of
        (Some e, s') \<Rightarrow> Inr (s'\<lparr>image_model := None, image_sampler := None\<rparr>)
      | (None, s') \<Rightarrow> Inr s')"

definition load_models :: "loader \<Rightarrow> state \<Rightarrow> (error + unit) \<times> state" where
  "load_models L s =
     (case run_steps
             (text_steps L @ [load_image_optional L] @ sdf_steps L
              @ [\<lambda>s. Inr (s\<lparr>models_ready := True\<rparr>)])
             (s\<lparr>device := Some (get_device L)\<rparr>) of
        (Some e, s') \<Rightarrow> (Inl e, s'\<lparr>models_ready := False\<rparr>)
      | (None, s') \<Rightarrow> (Inr (), s'))"

text \<open>
  Two conditions on the host, used to state what loading does: everything the text
  path and the mesh reconstruction need loads; some statement of the image model's
  loading raises.
\<close>

definition text_and_sdf_load :: "loader \<Rightarrow> bool" where
  "text_and_sdf_load L =
     (model_from_config L ''base40M-textvec'' = None
      \<and> diffusion_from_config L ''base40M-textvec'' = None
      \<and> model_from_config L ''upsample'' = None
      \<and> diffusion_from_config L ''upsample'' = None
      \<and> load_checkpoint L ''base40M-textvec'' = None
      \<and> load_checkpoint L ''upsample'' = None
      \<and> PointCloudSampler L ''base40M-textvec'' = None
      \<and> model_from_config L ''sdf'' = None
      \<and> load_checkpoint L ''sdf'' = None)"

definition image_load_fails :: "loader \<Rightarrow> bool" where
  "image_load_fails L =
     (model_from_config L ''base1B'' \<noteq> None
      \<or> diffusion_from_config L ''base1B'' \<noteq> None
      \<or> load_checkpoint L ''base1B'' \<noteq> None
      \<or> PointCloudSampler L ''base1B'' \<noteq> None)"

section \<open>Generation orchestrator (local_server.py)\<close>

text \<open>
  The local variant has no credential check and no remote tier. Its
  \<open>generate_from_text\<close> and \<open>pointcloud_to_mesh\<close> have the guards of server.py's, which
  stand for both; its \<open>generate_from_image\<close> differs in the message. Its handlers are
  named here with the suffix \<open>_local\<close>.
\<close>

record LocalGenerationResponse =
  lr_success :: bool
  lr_message :: string
  lr_file_url :: "string option"
  lr_file_path :: "string option"
  lr_user_id :: "string option"
  lr_vertices :: "nat option"
  lr_faces :: "nat option"
  lr_device_used :: "string option"
  lr_generation_time :: "npfloat option"

definition generate_from_image_local ::
  "env \<Rightarrow> state \<Rightarrow> string \<Rightarrow> (error + PointCloud) \<times> state" where
  "generate_from_image_local env s img =
     (if \<not> models_ready s \<or> image_sampler s = None
      then (Inl (HTTPException 503 ''Image model not available''), s)
      else (sample_batch_image env img, s\<lparr>image_sample_calls := image_sample_calls s + 1\<rparr>))"

text \<open>
  \<open>OUTPUT_DIR / part\<close>: an absolute part replaces the directory, an empty one leaves
  it. \<open>Path.mkdir(exist_ok=True)\<close> needs the parent directory. \<open>Path(p).stem\<close> is the
  last component without its last suffix.
\<close>

definition path_join :: "string \<Rightarrow> string \<Rightarrow> string" where
  "path_join base part =
     (if part = [] then base
      else if startswith part ''/'' then part
      else base @ ''/'' @ part)"

definition path_mkdir_exist_ok :: "filesystem \<Rightarrow> string \<Rightarrow> error + filesystem" where
  "path_mkdir_exist_ok fs p =
     (case path_name_error p of
        Some e \<Rightarrow> Inl e
      | None \<Rightarrow>
          if fs_files fs p \<noteq> None then Inl (OSError ''FileExistsError'')
          else if p \<in> fs_dirs fs then Inr fs
          else if os_path_dirname p = [] \<or> os_path_dirname p \<in> fs_dirs fs
          then Inr (fs\<lparr>fs_dirs := insert p (fs_dirs fs)\<rparr>)
          else Inl (OSError ''FileNotFoundError''))"

definition path_stem :: "string \<Rightarrow> string" where
  "path_stem p =
     (let name = os_path_basename (rev (dropWhile (\<lambda>c. c = CHR ''/'') (rev p)));
          suffix = rev (takeWhile (\<lambda>c. c \<noteq> CHR ''.'') (rev name))
      in if CHR ''.'' \<in> set name \<and> suffix \<noteq> [] \<and> Suc (length suffix) < length name
         then take (length name - Suc (length suffix)) name
         else name)"

text \<open>
  \<open>save_mesh_locally\<close> (local_server.py): \<open>user_id\<close> is \<open>None\<close> when the request body
  gave \<open>null\<close>, and joining the directory with \<open>None\<close> raises \<open>TypeError\<close>.
\<close>

definition save_mesh_locally ::
  "env \<Rightarrow> filesystem \<Rightarrow> TriMesh \<Rightarrow> string option \<Rightarrow> string \<Rightarrow>
   (error + string \<times> string) \<times> filesystem" where
  "save_mesh_locally env fs mesh user_id prompt =
     (case user_id of
        None \<Rightarrow> (Inl (TypeError ''unsupported operand type(s) for /''), fs)
      | Some u \<Rightarrow>
          (let user_dir = path_join ''generated_models'' u
           in case path_mkdir_exist_ok fs user_dir of
                Inl e \<Rightarrow> (Inl e, fs)
              | Inr fs1 \<Rightarrow>
                  (let timestamp = strftime (now_timestamp env) ''%Y%m%d_%H%M%S'';
                       safe_prompt = safe_prompt_of prompt;
                       filename = ''mesh_'' @ safe_prompt @ ''_'' @ timestamp @ ''.ply'';
                       filepath = path_join user_dir filename
                   in case open_write fs1 filepath (write_ply env mesh) of
                        Inl e \<Rightarrow> (Inl e, fs1)
                      | Inr fs2 \<Rightarrow> (Inr (filepath, filename), fs2))))"

definition text_to_3d_local_try ::
  "env \<Rightarrow> state \<Rightarrow> TextRequest \<Rightarrow> (error + LocalGenerationResponse) \<times> state" where
  "text_to_3d_local_try env s request =
     (case generate_from_text env s (tr_prompt request) of
        (Inl e, s1) \<Rightarrow> (Inl e, s1)
      | (Inr pc, s1) \<Rightarrow>
          if tr_format request = ''mesh''
          then (case pointcloud_to_mesh env s1 pc (tr_grid_size request) of
                  (Inl e, s2) \<Rightarrow> (Inl e, s2)
                | (Inr mesh, s2) \<Rightarrow>
                    (case save_mesh_locally env (disk s2) mesh (tr_user_id request)
                            (tr_prompt request) of
                       (Inl e, fs) \<Rightarrow> (Inl e, s2\<lparr>disk := fs\<rparr>)
                     | (Inr (filepath, filename), fs) \<Rightarrow>
                         (Inr \<lparr>lr_success = True,
                               lr_message = ''Generated mesh: '' @ tr_prompt request,
                               lr_file_url = Some (''/download/'' @ py_str (tr_user_id request)
                                                   @ ''/'' @ filename),
                               lr_file_path = Some filepath,
                               lr_user_id = tr_user_id request,
                               lr_vertices = Some (length (verts mesh)),
                               lr_faces = Some (length (faces mesh)),
                               lr_device_used = Some (device_name env),
                               lr_generation_time = Some (elapsed env)\<rparr>,
                          s2\<lparr>disk := fs\<rparr>)))
          else (Inl (HTTPException 400 ''Only mesh format is supported''), s1))"

text \<open>
  \<open>text_to_3d\<close> (local_server.py): as in server.py, \<open>except Exception\<close> turns every
  exception of the body into status 500.
\<close>

definition text_to_3d_local ::
  "env \<Rightarrow> state \<Rightarrow> TextRequest \<Rightarrow> (error + LocalGenerationResponse) \<times> state" where
  "text_to_3d_local env s request =
     (case text_to_3d_local_try env s request of
        (Inl e, s') \<Rightarrow> (Inl (HTTPException 500 (str_exc env e)), s')
      | (Inr r, s') \<Rightarrow> (Inr r, s'))"

definition image_to_3d_local_try ::
  "env \<Rightarrow> state \<Rightarrow> UploadFile \<Rightarrow> string \<Rightarrow> int \<Rightarrow>
   (error + LocalGenerationResponse) \<times> state" where
  "image_to_3d_local_try env s file user_id grid_size =
     (if image_model s = None
      then (Inl (HTTPException 503 ''Image model not available. Use text-to-3D instead.''), s)
      else case Image_open env (uf_data file) of
             Inl e \<Rightarrow> (Inl e, s)
           | Inr img \<Rightarrow>
          (case generate_from_image_local env s img of
             (Inl e, s1) \<Rightarrow> (Inl e, s1)
           | (Inr pc, s1) \<Rightarrow>
          (case pointcloud_to_mesh env s1 pc grid_size of
             (Inl e, s2) \<Rightarrow> (Inl e, s2)
           | (Inr mesh, s2) \<Rightarrow>
          (let prompt = (if truthy (uf_filename file)
                         then ''from_'' @ path_stem (py_str (uf_filename file))
                         else ''from_image'')
           in case save_mesh_locally env (disk s2) mesh (Some user_id) prompt of
                (Inl e, fs) \<Rightarrow> (Inl e, s2\<lparr>disk := fs\<rparr>)
              | (Inr (filepath, filename), fs) \<Rightarrow>
                  (Inr \<lparr>lr_success = True,
                        lr_message = ''Generated mesh from image'',
                        lr_file_url = Some (''/download/'' @ user_id @ ''/'' @ filename),
                        lr_file_path = Some filepath,
                        lr_user_id = Some user_id,
                        lr_vertices = Some (length (verts mesh)),
                        lr_faces = Some (length (faces mesh)),
                        lr_device_used = Some (device_name env),
                        lr_generation_time = Some (elapsed env)\<rparr>,
                   s2\<lparr>disk := fs\<rparr>)))))"

definition image_to_3d_local ::
  "env \<Rightarrow> state \<Rightarrow> UploadFile \<Rightarrow> string \<Rightarrow> int \<Rightarrow>
   (error + LocalGenerationResponse) \<times> state" where
  "image_to_3d_local env s file user_id grid_size =
     (case image_to_3d_local_try env s file user_id grid_size of
        (Inl e, s') \<Rightarrow> (Inl (HTTPException 500 (str_exc env e)), s')
      | (Inr r, s') \<Rightarrow> (Inr r, s'))"

section \<open>A sample deployment\<close>

text \<open>
  Concrete values to run the handlers on: a collaborator double that returns a fixed
  two-point cloud with colours and a fixed mesh of four vertices and two faces, a clock
  stopped at 2025-01-02 03:04:05, a storage backend whose calls succeed, and a process
  whose models are loaded and whose secret is set. The cloud's scalars are 32-bit
  floats, printed for the few values the double uses. The hash is a double too: it answers the MD5
  digest of \<open>abc\<close> whatever it is given.
\<close>

definition sample_now :: datetime where
  "sample_now = \<lparr>dt_year = 2025, dt_month = 1, dt_day = 2,
                  dt_hour = 3, dt_minute = 4, dt_second = 5\<rparr>"

definition f32 :: "rat \<Rightarrow> npfloat" where
  "f32 x = Finite float32 x"

definition sample_cloud :: PointCloud where
  "sample_cloud = \<lparr>coords = [(f32 0, f32 0, f32 0), (f32 1, f32 (1/2), f32 0)],
                    channels = [(''R'', [f32 1, f32 0]), (''G'', [f32 (1/2), f32 1]),
                                (''B'', [f32 0, f32 0])]\<rparr>"

definition sample_mesh :: TriMesh where
  "sample_mesh = \<lparr>verts = [(f32 0, f32 0, f32 0), (f32 1, f32 0, f32 0),
                            (f32 0, f32 1, f32 0), (f32 1, f32 1, f32 0)],
                   faces = [(0, 1, 2), (1, 3, 2)]\<rparr>"

definition sample_str_exc :: "error \<Rightarrow> string" where
  "sample_str_exc e =
     (case e of
        HTTPException code detail \<Rightarrow> str_nat code @ '': '' @ detail
      | ValueError m \<Rightarrow> m | TypeError m \<Rightarrow> m | KeyError m \<Rightarrow> m | IndexError m \<Rightarrow> m
      | AttributeError m \<Rightarrow> m | OSError m \<Rightarrow> m | OverflowError m \<Rightarrow> m
      | RuntimeError m \<Rightarrow> m)"

definition sample_str_float :: "npfloat \<Rightarrow> string" where
  "sample_str_float v =
     (case v of
        Finite d x \<Rightarrow>
          if x = 0 then ''0.0'' else if x = 1 then ''1.0'' else if x = 1/2 then ''0.5''
          else ''7.0''
      | PosInf \<Rightarrow> ''inf''
      | NegInf \<Rightarrow> ''-inf''
      | NaN \<Rightarrow> ''nan'')"

definition sample_env :: "env" where
  "sample_env =
     \<lparr>now_user_id = sample_now,
      now_timestamp = sample_now,
      now_storage_path = sample_now,
      expires_at_iso = ''2025-02-01T03:04:05'',
      uuid4 = ''1a2b3c4d-5e6f-4a0b-8c1d-2e3f4a5b6c7d'',
      md5_hexdigest = (\<lambda>b. ''900150983cd24fb0d6963f7d28e17f72''),
      str_exc = sample_str_exc,
      str_float = sample_str_float,
      sample_batch_text = (\<lambda>prompt. Inr sample_cloud),
      sample_batch_image = (\<lambda>img. Inr sample_cloud),
      marching_cubes_mesh = (\<lambda>pc grid_size. Inr sample_mesh),
      write_ply = (\<lambda>mesh. ''ply''),
      Image_open = (\<lambda>data. Inr data),
      upload_from_string = (\<lambda>path. None),
      generate_signed_url = (\<lambda>path lifetime. Inr (''https://storage.test/'' @ path)),
      list_blobs_error = (\<lambda>pfx. None),
      backend_time_created = (\<lambda>path. Some ''2025-01-02T03:04:06+00:00''),
      device_name = ''CPU'',
      elapsed = Finite float64 (1/2)\<rparr>"

definition sample_state :: state where
  "sample_state =
     \<lparr>SECRET_KEY = ''s3cret'',
      text_model = Some ''base40M-textvec'',
      text_sampler = Some ''base40M-textvec'',
      image_model = Some ''base1B'',
      image_sampler = Some ''base1B'',
      sdf_model = Some ''sdf'',
      models_ready = True,
      device = Some ''cpu'',
      gcs_client = None,
      disk = \<lparr>fs_dirs = {''/tmp''}, fs_files = Map.empty\<rparr>,
      sample_calls = 0,
      image_sample_calls = 0,
      mesh_calls = []\<rparr>"

definition sample_request :: Request where
  "sample_request =
     \<lparr>headers = [(''authorization'', ''Bearer s3cret''), (''user-agent'', ''Godot/4.2''),
                 (''x-forwarded-for'', ''203.0.113.7, 10.0.0.2'')],
      client_host = Some ''10.0.0.1''\<rparr>"

text \<open>
  A process that has loaded nothing yet, and a host on which everything loads except
  the weights of the image model.
\<close>

definition unloaded_state :: state where
  "unloaded_state =
     sample_state\<lparr>text_model := None, text_sampler := None, image_model := None,
                  image_sampler := None, sdf_model := None, models_ready := False,
                  device := None\<rparr>"

definition sample_loader :: loader where
  "sample_loader =
     \<lparr>model_from_config = (\<lambda>name. None),
      diffusion_from_config = (\<lambda>name. None),
      load_checkpoint = (\<lambda>name. if name = ''base1B''
                                then Some (OSError ''checkpoint base1B is not in the cache'')
                                else None),
      PointCloudSampler = (\<lambda>name. None),
      get_device = ''cpu'',
      ENABLE_GCS = False,
      storage_Client = Inl (RuntimeError ''DefaultCredentialsError'')\<rparr>"

section \<open>Properties\<close>




subsection \<open>Credential check\<close>






subsection \<open>Dates and paths\<close>

lemma strftime_ymd:
  "strftime now ''%Y/%m/%d'' =
     pad0 4 (dt_year now) @ ''/'' @ pad0 2 (dt_month now) @ ''/'' @ pad0 2 (dt_day now)"
  by (simp add: strftime_directive_def)

lemma strftime_stamp:
  "strftime now ''%Y%m%d_%H%M%S'' =
     pad0 4 (dt_year now) @ pad0 2 (dt_month now) @ pad0 2 (dt_day now) @ ''_'' @
     pad0 2 (dt_hour now) @ pad0 2 (dt_minute now) @ pad0 2 (dt_second now)"
  by (simp add: strftime_directive_def)






lemma generate_user_id_Some:
  "generate_user_id md5 now (Some h) =
     ''user_'' @ take 8 (md5 (utf8_encode
        (py_str (dict_get h ''user-agent'' (Some '''')) @
         py_str (dict_get h ''x-forwarded-for'' (Some '''')) @ str_date (date now))))"
  by (cases h) (simp_all add: generate_user_id_def dict_get_def)

text \<open>
  C9. The derived identity is the same for two invocations at any two clock readings of
  one calendar day whose header dictionaries agree on the caller-agent and the
  forwarded-address entries (whatever else they hold), for any hash function.
\<close>

theorem generate_user_id_deterministic:
  assumes "date now1 = date now2"
    and "map_of h1 ''user-agent'' = map_of h2 ''user-agent''"
    and "map_of h1 ''x-forwarded-for'' = map_of h2 ''x-forwarded-for''"
  shows "generate_user_id md5 now1 (Some h1) = generate_user_id md5 now2 (Some h2)"
  unfolding generate_user_id_Some using assms by (simp add: dict_get_def)

text \<open>
  The theorem at two readings of one day, 03:04:05 and 23:59:59, and at two header
  dictionaries that differ in a header the function does not read.
\<close>

theorem generate_user_id_deterministic_witness:
  "\<forall>md5.
     generate_user_id md5
       \<lparr>dt_year = 2025, dt_month = 1, dt_day = 2, dt_hour = 3, dt_minute = 4, dt_second = 5\<rparr>
       (Some [(''user-agent'', Some ''Godot/4.2''), (''x-forwarded-for'', None)])
     = generate_user_id md5
       \<lparr>dt_year = 2025, dt_month = 1, dt_day = 2, dt_hour = 23, dt_minute = 59, dt_second = 59\<rparr>
       (Some [(''accept'', Some ''*/*''), (''user-agent'', Some ''Godot/4.2''),
              (''x-forwarded-for'', None)])"
proof
  fix md5 :: "string \<Rightarrow> string"
  show "generate_user_id md5
       \<lparr>dt_year = 2025, dt_month = 1, dt_day = 2, dt_hour = 3, dt_minute = 4, dt_second = 5\<rparr>
       (Some [(''user-agent'', Some ''Godot/4.2''), (''x-forwarded-for'', None)])
     = generate_user_id md5
       \<lparr>dt_year = 2025, dt_month = 1, dt_day = 2, dt_hour = 23, dt_minute = 59, dt_second = 59\<rparr>
       (Some [(''accept'', Some ''*/*''), (''user-agent'', Some ''Godot/4.2''),
              (''x-forwarded-for'', None)])"
    by (rule generate_user_id_deterministic) (simp_all add: date_def)
qed

lemma save_to_local_writes:
  assumes "fst (save_to_local fs content filename) = Inr url"
  shows "url = ''/download/'' @ filename
    \<and> fs_files (snd (save_to_local fs content filename)) =
        (fs_files fs)(''/tmp/point-e-models/'' @ filename \<mapsto> content)"
proof -
  obtain fs1 where mk: "os_makedirs_exist_ok fs ''/tmp/point-e-models'' = Inr fs1"
    using assms by (cases "os_makedirs_exist_ok fs ''/tmp/point-e-models''")
      (auto simp: save_to_local_def)
  then have f1: "fs_files fs1 = fs_files fs"
    by (auto simp: os_makedirs_exist_ok_def split: if_splits option.splits)
  obtain fs2 where op: "open_write fs1 (''/tmp/point-e-models/'' @ filename) content = Inr fs2"
    using assms mk by (cases "open_write fs1 (''/tmp/point-e-models/'' @ filename) content")
      (auto simp: save_to_local_def)
  then have f2: "fs_files fs2 = (fs_files fs1)(''/tmp/point-e-models/'' @ filename \<mapsto> content)"
    by (auto simp: open_write_def split: option.splits)
  from mk op have "save_to_local fs content filename = (Inr (''/download/'' @ filename), fs2)"
    by (simp add: save_to_local_def)
  with assms f1 f2 show ?thesis by simp
qed

text \<open>
  C7 (amended). The remote path is \<open>users/<identity>/<YYYY>/<MM>/<DD>/<filename>\<close>, the
  date being the clock reading of the call, zero-padded. The local tier takes no
  identity and no date: a successful \<open>save_to_local\<close> writes the one file
  \<open>/tmp/point-e-models/<filename>\<close> and answers \<open>/download/<filename>\<close>.
\<close>

theorem storage_path_templates:
  "get_storage_path now user_id filename =
     ''users/'' @ user_id @ ''/'' @ pad0 4 (dt_year now) @ ''/'' @ pad0 2 (dt_month now)
       @ ''/'' @ pad0 2 (dt_day now) @ ''/'' @ filename
   \<and> (fst (save_to_local fs content filename) = Inr url \<longrightarrow>
        url = ''/download/'' @ filename
        \<and> fs_files (snd (save_to_local fs content filename)) =
            (fs_files fs)(''/tmp/point-e-models/'' @ filename \<mapsto> content))"
proof (intro conjI impI)
  show "get_storage_path now user_id filename =
     ''users/'' @ user_id @ ''/'' @ pad0 4 (dt_year now) @ ''/'' @ pad0 2 (dt_month now)
       @ ''/'' @ pad0 2 (dt_day now) @ ''/'' @ filename"
    unfolding get_storage_path_def strftime_ymd Let_def by simp
next
  assume h: "fst (save_to_local fs content filename) = Inr url"
  show "url = ''/download/'' @ filename"
    using save_to_local_writes [OF h] by simp
  show "fs_files (snd (save_to_local fs content filename)) =
            (fs_files fs)(''/tmp/point-e-models/'' @ filename \<mapsto> content)"
    using save_to_local_writes [OF h] by simp
qed

text \<open>
  The theorem for the identity \<open>user_90015098\<close> on 2025-01-02, and for a save on a disk
  that holds \<open>/tmp\<close> only.
\<close>

theorem storage_path_templates_witness:
  "get_storage_path sample_now ''user_90015098'' ''mesh_a cube_20250102_030405_1a2b3c4d.ply''
     = ''users/user_90015098/2025/01/02/mesh_a cube_20250102_030405_1a2b3c4d.ply''
   \<and> fst (save_to_local \<lparr>fs_dirs = {''/tmp''}, fs_files = Map.empty\<rparr> ''ply'' ''m.ply'')
       = Inr ''/download/m.ply''
   \<and> fs_files (snd (save_to_local \<lparr>fs_dirs = {''/tmp''}, fs_files = Map.empty\<rparr> ''ply'' ''m.ply''))
       = [''/tmp/point-e-models/m.ply'' \<mapsto> ''ply'']"
proof -
  have p: "pad0 4 2025 = ''2025''" "pad0 2 (Suc 0) = ''01''" "pad0 2 2 = ''02''"
    by code_simp+
  have s: "fst (save_to_local \<lparr>fs_dirs = {''/tmp''}, fs_files = Map.empty\<rparr> ''ply'' ''m.ply'')
       = Inr ''/download/m.ply''"
    by code_simp
  have "get_storage_path sample_now ''user_90015098'' ''mesh_a cube_20250102_030405_1a2b3c4d.ply''
     = ''users/user_90015098/2025/01/02/mesh_a cube_20250102_030405_1a2b3c4d.ply''"
    using storage_path_templates [of sample_now "''user_90015098''"
        "''mesh_a cube_20250102_030405_1a2b3c4d.ply''"
        "\<lparr>fs_dirs = {''/tmp''}, fs_files = Map.empty\<rparr>" "''ply''" "''/download/m.ply''"]
    by (simp add: sample_now_def p)
  moreover have "fs_files (snd (save_to_local \<lparr>fs_dirs = {''/tmp''}, fs_files = Map.empty\<rparr>
                                  ''ply'' ''m.ply''))
       = [''/tmp/point-e-models/m.ply'' \<mapsto> ''ply'']"
    using storage_path_templates [of sample_now "''u''" "''m.ply''"
        "\<lparr>fs_dirs = {''/tmp''}, fs_files = Map.empty\<rparr>" "''ply''" "''/download/m.ply''"] s
    by simp
  ultimately show ?thesis using s by simp
qed

text \<open>
  C7 as stated names the first path component \<open>owner\<close>; the code writes \<open>users\<close>.
\<close>

theorem storage_path_owner_counterexample:
  "get_storage_path sample_now ''u1'' ''m.ply'' = ''users/u1/2025/01/02/m.ply''
   \<and> get_storage_path sample_now ''u1'' ''m.ply'' \<noteq> ''owner/u1/2025/01/02/m.ply''"
  by code_simp




subsection \<open>File names\<close>

lemma digit_char_not_slash: "d < 10 \<Longrightarrow> digit_char d \<noteq> CHR ''/''"
proof
  assume d: "d < 10" and e: "digit_char d = CHR ''/''"
  then have "(of_char (char_of (48 + d) :: char) :: nat) = of_char CHR ''/''"
    by (simp add: digit_char_def)
  with d show False by (simp add: of_char_of)
qed

lemma str_nat_no_slash: "CHR ''/'' \<notin> set (str_nat n)"
proof (induction n rule: str_nat.induct)
  case (1 n)
  show ?case
  proof (cases "n < 10")
    case True
    then show ?thesis
      using digit_char_not_slash [of n] by (subst str_nat.simps) auto
  next
    case False
    moreover have "n mod 10 < 10" by simp
    ultimately show ?thesis
      using 1 digit_char_not_slash [of "n mod 10"] by (subst str_nat.simps) auto
  qed
qed

lemma pad0_no_slash: "CHR ''/'' \<notin> set (pad0 w n)"
  by (simp add: pad0_def str_nat_no_slash)

lemma safe_prompt_no_slash: "CHR ''/'' \<notin> set (safe_prompt_of prompt)"
proof
  assume "CHR ''/'' \<in> set (safe_prompt_of prompt)"
  then have "CHR ''/'' \<in> set (rev (dropWhile py_isspace (rev (filter
      (\<lambda>c. py_isalnum c \<or> c \<in> {CHR '' '', CHR ''-'', CHR ''_''}) prompt))))"
    unfolding safe_prompt_of_def py_rstrip_def by (rule in_set_takeD)
  then have "CHR ''/'' \<in> set (filter
      (\<lambda>c. py_isalnum c \<or> c \<in> {CHR '' '', CHR ''-'', CHR ''_''}) prompt)"
    by (auto dest: set_dropWhileD)
  then have "py_isalnum CHR ''/''"
    by simp
  then show False
    by (simp add: py_isalnum_def)
qed

text \<open>
  Every file name the text handler builds is one path component, as long as the
  random identifier holds no slash.
\<close>

lemma generated_filename_is_a_name:
  assumes "CHR ''/'' \<notin> set (uuid4 env)" and "CHR ''/'' \<notin> set kind"
  shows "CHR ''/'' \<notin> set (kind @ safe_prompt_of prompt @ ''_''
            @ strftime (now_timestamp env) ''%Y%m%d_%H%M%S'' @ ''_''
            @ take 8 (uuid4 env) @ ''.ply'')"
proof -
  have "CHR ''/'' \<notin> set (take 8 (uuid4 env))"
    using assms(1) by (meson in_set_takeD)
  then show ?thesis
    using assms(2)
    by (simp add: strftime_directive_def pad0_no_slash safe_prompt_no_slash)
qed

text \<open>The path functions on names with several dots, leading dots and a trailing slash.\<close>

lemma python_path_examples:
  "path_stem ''..x'' = ''.''" "path_stem ''a/chair.tar.png'' = ''chair.tar''" "path_stem ''dir/'' = ''dir''"
  "splitext_root ''x.'' = ''x''" "splitext_root ''a/.b'' = ''a/.b''" "splitext_root ''a.b.png'' = ''a.b''"
  "py_strip '' 203.0.113.7 '' = ''203.0.113.7''"
  by code_simp+

subsection \<open>Asset catalog\<close>

text \<open>
  C3 (amended). Without a storage client the listing is not empty but refused:
  for every identity \<open>get_user_models\<close> raises status 503, \<open>Storage not available\<close>,
  before the \<open>try\<close>, so the status reaches the caller as it is.
\<close>

theorem get_user_models_storage_unavailable:
  "gcs_client s = None \<Longrightarrow>
   get_user_models env s user_id = Inl (HTTPException 503 ''Storage not available'')"
  by (simp add: get_user_models_def)

text \<open>The theorem on the sample process, which runs without a storage client.\<close>

theorem get_user_models_storage_unavailable_witness:
  "gcs_client sample_state = None
   \<and> get_user_models sample_env sample_state ''user_90015098''
       = Inl (HTTPException 503 ''Storage not available'')"
proof -
  have n: "gcs_client sample_state = None"
    by (simp add: sample_state_def)
  from n get_user_models_storage_unavailable [OF n, of sample_env "''user_90015098''"]
  show ?thesis by simp
qed

text \<open>
  C3 as stated asks for an empty listing; the answer for the identity \<open>u1\<close> is an error.
\<close>

theorem get_user_models_empty_listing_counterexample:
  "get_user_models sample_env sample_state ''u1''
     \<noteq> Inr \<lparr>umr_user_id = ''u1'', umr_models = [], umr_total_count = 0\<rparr>
   \<and> get_user_models sample_env sample_state ''u1''
       = Inl (HTTPException 503 ''Storage not available'')"
  by code_simp

text \<open>
  How the catalog assigns the kind: by whether \<open>mesh_\<close> occurs anywhere in the object's
  full path.
\<close>

lemma collect_models_type:
  "collect_models env bs = Inr ms \<Longrightarrow>
   \<forall>m\<in>set ms. me_type m = (if py_in ''mesh_'' (me_path m) then ''mesh'' else ''pointcloud'')"
proof (induction bs arbitrary: ms)
  case Nil
  then show ?case by simp
next
  case (Cons b bs)
  show ?case
  proof (cases "endswith (blob_name b) ''.ply''")
    case False
    with Cons show ?thesis by simp
  next
    case True
    with Cons.prems obtain url ms' where
      "collect_models env bs = Inr ms'"
      and ms: "ms = \<lparr>me_filename = os_path_basename (blob_name b), me_path = blob_name b,
                    me_download_url = url, me_created = time_created b,
                    me_size = length (blob_data b),
                    me_type = (if py_in ''mesh_'' (blob_name b) then ''mesh''
                               else ''pointcloud'')\<rparr> # ms'"
      by (auto split: sum.splits)
    with Cons.IH show ?thesis by auto
  qed
qed

lemma get_user_models_type:
  assumes "get_user_models env s user_id = Inr r"
  shows "\<forall>m\<in>set (umr_models r).
           me_type m = (if py_in ''mesh_'' (me_path m) then ''mesh'' else ''pointcloud'')"
proof -
  from assms obtain bucket blobs ms where
    "collect_models env blobs = Inr ms" and "umr_models r = sorted_reverse created_key ms"
    by (auto simp: get_user_models_def get_user_models_try_def
          split: option.splits sum.splits)
  moreover have "set (sorted_reverse created_key ms) = set ms"
    by (simp add: sorted_reverse_def)
  ultimately show ?thesis
    using collect_models_type by metis
qed

text \<open>
  C6 fails on the code. A point cloud generated for the prompt \<open>mesh_ball\<close> is stored as
  \<open>pointcloud_mesh_ball_...\<close>; the listing of its owner then calls it a mesh, because
  \<open>mesh_\<close> occurs in the path, though not at the start of the file name.
\<close>

theorem catalog_lists_pointcloud_as_mesh:
  "get_user_models sample_env
     (snd (text_to_3d sample_env (sample_state\<lparr>gcs_client := Some []\<rparr>) sample_request
             \<lparr>tr_prompt = ''mesh_ball'', tr_user_id = Some ''u1'', tr_format = ''pointcloud'',
              tr_grid_size = 32, tr_num_samples = 1\<rparr>))
     ''u1''
   = Inr \<lparr>umr_user_id = ''u1'',
          umr_models =
            [\<lparr>me_filename = ''pointcloud_mesh_ball_20250102_030405_1a2b3c4d.ply'',
              me_path = ''users/u1/2025/01/02/pointcloud_mesh_ball_20250102_030405_1a2b3c4d.ply'',
              me_download_url = ''https://storage.test/users/u1/2025/01/02/pointcloud_mesh_ball_20250102_030405_1a2b3c4d.ply'',
              me_created = Some ''2025-01-02T03:04:06+00:00'',
              me_size = 202,
              me_type = ''mesh''\<rparr>],
          umr_total_count = 1\<rparr>"
  by code_simp

subsection \<open>Serialization codec\<close>

lemma ply_vertices_lines:
  "(\<And>i. i \<in> set idx \<Longrightarrow> ply_vertex env pc i = Inr (line i)) \<Longrightarrow>
   ply_vertices env pc idx = (concat (map line idx), None)"
  by (induction idx) simp_all

lemma ply_vertex_plain:
  assumes "i < length (coords pc)" and "map_of (channels pc) ''R'' = None"
  shows "ply_vertex env pc i =
     Inr (case coords pc ! i of (x, y, z) \<Rightarrow>
            str_float env x @ '' '' @ str_float env y @ '' '' @ str_float env z @ ''\<newline>'')"
  using assms by (simp add: ply_vertex_def split: prod.splits)

lemma scaled_colour_value:
  assumes "map_of colors k = Some v" and "list_all2 (\<lambda>c n. py_int (times_255 c) = Inr n) v vn"
    and "i < length v"
  shows "scaled_colour colors k i = Inr (vn ! i)"
  using assms(1,3) list_all2_nthD [OF assms(2,3)]
  by (simp add: scaled_colour_def channel_at_def)

lemma ply_vertex_coloured:
  assumes "i < length (coords pc)"
    and "map_of (channels pc) ''R'' = Some r" and "length r = length (coords pc)"
    and "list_all2 (\<lambda>c n. py_int (times_255 c) = Inr n) r rn"
    and "map_of (channels pc) ''G'' = Some g" and "length g = length (coords pc)"
    and "list_all2 (\<lambda>c n. py_int (times_255 c) = Inr n) g gn"
    and "map_of (channels pc) ''B'' = Some b" and "length b = length (coords pc)"
    and "list_all2 (\<lambda>c n. py_int (times_255 c) = Inr n) b bn"
  shows "ply_vertex env pc i =
     Inr (case coords pc ! i of (x, y, z) \<Rightarrow>
            str_float env x @ '' '' @ str_float env y @ '' '' @ str_float env z
            @ '' '' @ str_int (rn ! i) @ '' '' @ str_int (gn ! i) @ '' '' @ str_int (bn ! i)
            @ ''\<newline>'')"
proof -
  have "scaled_colour (channels pc) ''R'' i = Inr (rn ! i)"
    using assms(1,2,3,4) by (simp add: scaled_colour_value)
  moreover have "scaled_colour (channels pc) ''G'' i = Inr (gn ! i)"
    using assms(1,5,6,7) by (simp add: scaled_colour_value)
  moreover have "scaled_colour (channels pc) ''B'' i = Inr (bn ! i)"
    using assms(1,8,9,10) by (simp add: scaled_colour_value)
  ultimately show ?thesis
    using assms(1,2) by (simp add: ply_vertex_def split: prod.splits)
qed

lemma ply_write_plain:
  assumes "map_of (channels pc) ''R'' = None"
  shows "ply_write env pc =
        (''ply\<newline>format ascii 1.0\<newline>''
         @ ''element vertex '' @ str_nat (length (coords pc)) @ ''\<newline>''
         @ ''property float x\<newline>property float y\<newline>property float z\<newline>''
         @ ''end_header\<newline>''
         @ concat (map (\<lambda>i. case coords pc ! i of (x, y, z) \<Rightarrow>
                           str_float env x @ '' '' @ str_float env y @ '' ''
                           @ str_float env z @ ''\<newline>'')
                     [0..<length (coords pc)]),
         None)"
proof -
  have "ply_vertices env pc [0..<length (coords pc)] =
          (concat (map (\<lambda>i. case coords pc ! i of (x, y, z) \<Rightarrow>
                           str_float env x @ '' '' @ str_float env y @ '' ''
                           @ str_float env z @ ''\<newline>'')
                     [0..<length (coords pc)]), None)"
    by (rule ply_vertices_lines) (simp add: ply_vertex_plain assms)
  then show ?thesis
    using assms by (simp add: ply_write_def ply_header_def)
qed

lemma ply_write_coloured:
  assumes "map_of (channels pc) ''R'' = Some r" and "length r = length (coords pc)"
    and "list_all2 (\<lambda>c n. py_int (times_255 c) = Inr n) r rn"
    and "map_of (channels pc) ''G'' = Some g" and "length g = length (coords pc)"
    and "list_all2 (\<lambda>c n. py_int (times_255 c) = Inr n) g gn"
    and "map_of (channels pc) ''B'' = Some b" and "length b = length (coords pc)"
    and "list_all2 (\<lambda>c n. py_int (times_255 c) = Inr n) b bn"
  shows "ply_write env pc =
        (''ply\<newline>format ascii 1.0\<newline>''
         @ ''element vertex '' @ str_nat (length (coords pc)) @ ''\<newline>''
         @ ''property float x\<newline>property float y\<newline>property float z\<newline>''
         @ ''property uchar red\<newline>property uchar green\<newline>property uchar blue\<newline>''
         @ ''end_header\<newline>''
         @ concat (map (\<lambda>i. case coords pc ! i of (x, y, z) \<Rightarrow>
                           str_float env x @ '' '' @ str_float env y @ '' ''
                           @ str_float env z
                           @ '' '' @ str_int (rn ! i) @ '' '' @ str_int (gn ! i)
                           @ '' '' @ str_int (bn ! i) @ ''\<newline>'')
                     [0..<length (coords pc)]),
         None)"
proof -
  have "ply_vertices env pc [0..<length (coords pc)] =
          (concat (map (\<lambda>i. case coords pc ! i of (x, y, z) \<Rightarrow>
                           str_float env x @ '' '' @ str_float env y @ '' ''
                           @ str_float env z
                           @ '' '' @ str_int (rn ! i) @ '' '' @ str_int (gn ! i)
                           @ '' '' @ str_int (bn ! i) @ ''\<newline>'')
                     [0..<length (coords pc)]), None)"
    by (rule ply_vertices_lines) (use assms in \<open>simp add: ply_vertex_coloured\<close>)
  then show ?thesis
    using assms(1) by (simp add: ply_write_def ply_header_def)
qed

lemma save_pointcloud_ply_file:
  assumes "ply_write env pc = (written, None)" and "open_error fs filepath = None"
  shows "fst (save_pointcloud_ply env fs pc filepath) = Inr ()
    \<and> fs_files (snd (save_pointcloud_ply env fs pc filepath)) filepath
        = Some (utf8_encode written)"
  using assms by (simp add: save_pointcloud_ply_def open_write_def)

text \<open>
  C8 (amended). Take a point cloud of N points that has no channel \<open>R\<close>, or has the
  channels \<open>R\<close>, \<open>G\<close> and \<open>B\<close> with N entries each, every entry of which scales to an
  integer: \<open>int(c * 255)\<close>, the product rounded in the scalar's format and truncated,
  does not raise. Then the writer finishes without an exception and its text is: the
  header, declaring \<open>element vertex N\<close> and the three float position properties, with the
  three \<open>uchar\<close> colour properties exactly when \<open>R\<close> is there; then one line for each
  index below N, in order, holding the point's printed coordinates and, with colours,
  the three scaled integers of that index. \<open>save_pointcloud_ply\<close>, given a path that can
  be opened for writing, returns normally and leaves exactly that text, encoded, in
  the file.
\<close>

theorem ply_write_layout:
  "(map_of (channels pc) ''R'' = None \<longrightarrow>
      ply_write env pc =
        (''ply\<newline>format ascii 1.0\<newline>''
         @ ''element vertex '' @ str_nat (length (coords pc)) @ ''\<newline>''
         @ ''property float x\<newline>property float y\<newline>property float z\<newline>''
         @ ''end_header\<newline>''
         @ concat (map (\<lambda>i. case coords pc ! i of (x, y, z) \<Rightarrow>
                           str_float env x @ '' '' @ str_float env y @ '' ''
                           @ str_float env z @ ''\<newline>'')
                     [0..<length (coords pc)]),
         None))
   \<and> (map_of (channels pc) ''R'' = Some r \<and> length r = length (coords pc)
        \<and> list_all2 (\<lambda>c n. py_int (times_255 c) = Inr n) r rn
        \<and> map_of (channels pc) ''G'' = Some g \<and> length g = length (coords pc)
        \<and> list_all2 (\<lambda>c n. py_int (times_255 c) = Inr n) g gn
        \<and> map_of (channels pc) ''B'' = Some b \<and> length b = length (coords pc)
        \<and> list_all2 (\<lambda>c n. py_int (times_255 c) = Inr n) b bn \<longrightarrow>
      ply_write env pc =
        (''ply\<newline>format ascii 1.0\<newline>''
         @ ''element vertex '' @ str_nat (length (coords pc)) @ ''\<newline>''
         @ ''property float x\<newline>property float y\<newline>property float z\<newline>''
         @ ''property uchar red\<newline>property uchar green\<newline>property uchar blue\<newline>''
         @ ''end_header\<newline>''
         @ concat (map (\<lambda>i. case coords pc ! i of (x, y, z) \<Rightarrow>
                           str_float env x @ '' '' @ str_float env y @ '' ''
                           @ str_float env z
                           @ '' '' @ str_int (rn ! i) @ '' '' @ str_int (gn ! i)
                           @ '' '' @ str_int (bn ! i) @ ''\<newline>'')
                     [0..<length (coords pc)]),
         None))
   \<and> (snd (ply_write env pc) = None \<and> open_error fs filepath = None \<longrightarrow>
        fst (save_pointcloud_ply env fs pc filepath) = Inr ()
        \<and> fs_files (snd (save_pointcloud_ply env fs pc filepath)) filepath
            = Some (utf8_encode (fst (ply_write env pc))))"
proof (intro conjI impI)
  assume "map_of (channels pc) ''R'' = None"
  then show "ply_write env pc =
        (''ply\<newline>format ascii 1.0\<newline>''
         @ ''element vertex '' @ str_nat (length (coords pc)) @ ''\<newline>''
         @ ''property float x\<newline>property float y\<newline>property float z\<newline>''
         @ ''end_header\<newline>''
         @ concat (map (\<lambda>i. case coords pc ! i of (x, y, z) \<Rightarrow>
                           str_float env x @ '' '' @ str_float env y @ '' ''
                           @ str_float env z @ ''\<newline>'')
                     [0..<length (coords pc)]),
         None)"
    by (rule ply_write_plain)
next
  assume "map_of (channels pc) ''R'' = Some r \<and> length r = length (coords pc)
        \<and> list_all2 (\<lambda>c n. py_int (times_255 c) = Inr n) r rn
        \<and> map_of (channels pc) ''G'' = Some g \<and> length g = length (coords pc)
        \<and> list_all2 (\<lambda>c n. py_int (times_255 c) = Inr n) g gn
        \<and> map_of (channels pc) ''B'' = Some b \<and> length b = length (coords pc)
        \<and> list_all2 (\<lambda>c n. py_int (times_255 c) = Inr n) b bn"
  then show "ply_write env pc =
        (''ply\<newline>format ascii 1.0\<newline>''
         @ ''element vertex '' @ str_nat (length (coords pc)) @ ''\<newline>''
         @ ''property float x\<newline>property float y\<newline>property float z\<newline>''
         @ ''property uchar red\<newline>property uchar green\<newline>property uchar blue\<newline>''
         @ ''end_header\<newline>''
         @ concat (map (\<lambda>i. case coords pc ! i of (x, y, z) \<Rightarrow>
                           str_float env x @ '' '' @ str_float env y @ '' ''
                           @ str_float env z
                           @ '' '' @ str_int (rn ! i) @ '' '' @ str_int (gn ! i)
                           @ '' '' @ str_int (bn ! i) @ ''\<newline>'')
                     [0..<length (coords pc)]),
         None)"
    by (elim conjE) (rule ply_write_coloured; assumption)
next
  assume h: "snd (ply_write env pc) = None \<and> open_error fs filepath = None"
  then have w: "ply_write env pc = (fst (ply_write env pc), None)"
    by (metis prod.collapse)
  from h show "fst (save_pointcloud_ply env fs pc filepath) = Inr ()"
    using save_pointcloud_ply_file [OF w] by simp
  from h show "fs_files (snd (save_pointcloud_ply env fs pc filepath)) filepath
            = Some (utf8_encode (fst (ply_write env pc)))"
    using save_pointcloud_ply_file [OF w] by simp
qed

text \<open>
  The theorem on the sample cloud, two points with colours, written to a file in an
  existing directory, and on a single point without channels.
\<close>

theorem ply_write_layout_witness:
  "ply_write sample_env sample_cloud =
     (''ply\<newline>format ascii 1.0\<newline>element vertex 2\<newline>property float x\<newline>property float y\<newline>property float z\<newline>property uchar red\<newline>property uchar green\<newline>property uchar blue\<newline>end_header\<newline>0.0 0.0 0.0 255 127 0\<newline>1.0 0.5 0.0 0 255 0\<newline>'',
      None)
   \<and> fs_files (snd (save_pointcloud_ply sample_env \<lparr>fs_dirs = {''/tmp''}, fs_files = Map.empty\<rparr>
                       sample_cloud ''/tmp/cloud.ply'')) ''/tmp/cloud.ply'' =
       Some ''ply\<newline>format ascii 1.0\<newline>element vertex 2\<newline>property float x\<newline>property float y\<newline>property float z\<newline>property uchar red\<newline>property uchar green\<newline>property uchar blue\<newline>end_header\<newline>0.0 0.0 0.0 255 127 0\<newline>1.0 0.5 0.0 0 255 0\<newline>''
   \<and> ply_write sample_env \<lparr>coords = [(f32 1, f32 0, f32 (1/2))], channels = []\<rparr> =
     (''ply\<newline>format ascii 1.0\<newline>element vertex 1\<newline>property float x\<newline>property float y\<newline>property float z\<newline>end_header\<newline>1.0 0.0 0.5\<newline>'',
      None)"
proof -
  have n: "str_nat (Suc (Suc 0)) = ''2''" "str_nat (Suc 0) = ''1''" "str_int 255 = ''255''"
      "str_int 127 = ''127''" "str_int 0 = ''0''" "[0..<2] = [0, Suc 0]"
    by code_simp+
  have sc: "py_int (times_255 (f32 1)) = Inr 255" "py_int (times_255 (f32 0)) = Inr 0"
      "py_int (times_255 (f32 (1/2))) = Inr 127"
    by code_simp+
  have fl: "sample_str_float (f32 0) = ''0.0''" "sample_str_float (f32 1) = ''1.0''"
      "sample_str_float (f32 (1/2)) = ''0.5''"
    by code_simp+
  have env: "str_float sample_env = sample_str_float"
    by (simp add: sample_env_def)
  have c: "coords sample_cloud = [(f32 0, f32 0, f32 0), (f32 1, f32 (1/2), f32 0)]"
    by (simp add: sample_cloud_def)
  have h: "map_of (channels sample_cloud) ''R'' = Some [f32 1, f32 0]
        \<and> length [f32 1, f32 0] = length (coords sample_cloud)
        \<and> list_all2 (\<lambda>c n. py_int (times_255 c) = Inr n) [f32 1, f32 0] [255, 0]
        \<and> map_of (channels sample_cloud) ''G'' = Some [f32 (1/2), f32 1]
        \<and> length [f32 (1/2), f32 1] = length (coords sample_cloud)
        \<and> list_all2 (\<lambda>c n. py_int (times_255 c) = Inr n) [f32 (1/2), f32 1] [127, 255]
        \<and> map_of (channels sample_cloud) ''B'' = Some [f32 0, f32 0]
        \<and> length [f32 0, f32 0] = length (coords sample_cloud)
        \<and> list_all2 (\<lambda>c n. py_int (times_255 c) = Inr n) [f32 0, f32 0] [0, 0]"
    by (simp add: sample_cloud_def sc)
  have w: "ply_write sample_env sample_cloud =
     (''ply\<newline>format ascii 1.0\<newline>element vertex 2\<newline>property float x\<newline>property float y\<newline>property float z\<newline>property uchar red\<newline>property uchar green\<newline>property uchar blue\<newline>end_header\<newline>0.0 0.0 0.0 255 127 0\<newline>1.0 0.5 0.0 0 255 0\<newline>'',
      None)"
    using ply_write_layout [where pc = sample_cloud and env = sample_env
        and r = "[f32 1, f32 0]" and rn = "[255, 0]"
        and g = "[f32 (1/2), f32 1]" and gn = "[127, 255]"
        and b = "[f32 0, f32 0]" and bn = "[0, 0]",
        THEN conjunct2, THEN conjunct1, rule_format, OF h]
    by (simp add: c env fl n)
  have o: "open_error \<lparr>fs_dirs = {''/tmp''}, fs_files = Map.empty\<rparr> ''/tmp/cloud.ply'' = None"
    by code_simp
  have u: "utf8_encode ''ply\<newline>format ascii 1.0\<newline>element vertex 2\<newline>property float x\<newline>property float y\<newline>property float z\<newline>property uchar red\<newline>property uchar green\<newline>property uchar blue\<newline>end_header\<newline>0.0 0.0 0.0 255 127 0\<newline>1.0 0.5 0.0 0 255 0\<newline>''
      = ''ply\<newline>format ascii 1.0\<newline>element vertex 2\<newline>property float x\<newline>property float y\<newline>property float z\<newline>property uchar red\<newline>property uchar green\<newline>property uchar blue\<newline>end_header\<newline>0.0 0.0 0.0 255 127 0\<newline>1.0 0.5 0.0 0 255 0\<newline>''"
    by code_simp
  have f: "fs_files (snd (save_pointcloud_ply sample_env \<lparr>fs_dirs = {''/tmp''}, fs_files = Map.empty\<rparr>
                       sample_cloud ''/tmp/cloud.ply'')) ''/tmp/cloud.ply'' =
       Some ''ply\<newline>format ascii 1.0\<newline>element vertex 2\<newline>property float x\<newline>property float y\<newline>property float z\<newline>property uchar red\<newline>property uchar green\<newline>property uchar blue\<newline>end_header\<newline>0.0 0.0 0.0 255 127 0\<newline>1.0 0.5 0.0 0 255 0\<newline>''"
    using ply_write_layout [where pc = sample_cloud and env = sample_env
        and fs = "\<lparr>fs_dirs = {''/tmp''}, fs_files = Map.empty\<rparr>"
        and filepath = "''/tmp/cloud.ply''",
        THEN conjunct2, THEN conjunct2, rule_format] w o
    by (simp add: u)
  have p: "ply_write sample_env \<lparr>coords = [(f32 1, f32 0, f32 (1/2))], channels = []\<rparr> =
     (''ply\<newline>format ascii 1.0\<newline>element vertex 1\<newline>property float x\<newline>property float y\<newline>property float z\<newline>end_header\<newline>1.0 0.0 0.5\<newline>'',
      None)"
    using ply_write_layout [where pc = "\<lparr>coords = [(f32 1, f32 0, f32 (1/2))], channels = []\<rparr>"
        and env = sample_env, THEN conjunct1]
    by (simp add: env fl n)
  from w f p show ?thesis by simp
qed

text \<open>
  C8 as stated asks only that the channels that are there have N entries. A cloud of
  one point with the channel \<open>R\<close> alone meets that, and the writer stops after the
  header with \<open>KeyError\<close> for \<open>G\<close>, before any vertex line. A cloud whose red value is
  NaN stops with \<open>ValueError\<close> in the same place.
\<close>

theorem ply_write_red_only_counterexample:
  "ply_write sample_env \<lparr>coords = [(f32 0, f32 0, f32 0)], channels = [(''R'', [f32 1])]\<rparr> =
     (''ply\<newline>format ascii 1.0\<newline>element vertex 1\<newline>property float x\<newline>property float y\<newline>property float z\<newline>property uchar red\<newline>property uchar green\<newline>property uchar blue\<newline>end_header\<newline>'',
      Some (KeyError ''G''))
   \<and> ply_write sample_env
        \<lparr>coords = [(f32 0, f32 0, f32 0)],
         channels = [(''R'', [NaN]), (''G'', [f32 1]), (''B'', [f32 1])]\<rparr> =
     (''ply\<newline>format ascii 1.0\<newline>element vertex 1\<newline>property float x\<newline>property float y\<newline>property float z\<newline>property uchar red\<newline>property uchar green\<newline>property uchar blue\<newline>end_header\<newline>'',
      Some (ValueError ''cannot convert float NaN to integer''))"
  by code_simp

text \<open>
  The scaling on a few values: a half gives 127, the largest 32-bit float below one
  gives 254, a third in 64 bits gives -85 for its negative, an overflowing product
  and NaN raise.
\<close>

lemma scaling_examples:
  "py_int (times_255 (f32 (1/2))) = Inr 127"
  "py_int (times_255 (f32 (16777215/16777216))) = Inr 254"
  "py_int (times_255 (Finite float64 (- 1/3))) = Inr (- 85)"
  "py_int (times_255 (f32 (2 ^ 127))) =
     Inl (OverflowError ''cannot convert float infinity to integer'')"
  "py_int (times_255 NaN) = Inl (ValueError ''cannot convert float NaN to integer'')"
  by code_simp+

subsection \<open>Generation orchestrator\<close>

lemma generate_from_text_not_ready:
  "\<not> models_ready s \<Longrightarrow>
   generate_from_text env s prompt = (Inl (HTTPException 503 ''Models not ready''), s)"
  by (simp add: generate_from_text_def)

lemma generate_from_text_ready:
  "models_ready s \<Longrightarrow> text_sampler s \<noteq> None \<Longrightarrow>
   generate_from_text env s prompt =
     (sample_batch_text env prompt, s\<lparr>sample_calls := sample_calls s + 1\<rparr>)"
  by (auto simp: generate_from_text_def)

lemma save_to_gcs_frame:
  "save_to_gcs env s content path ctype = (r, s') \<Longrightarrow>
   sample_calls s' = sample_calls s \<and> mesh_calls s' = mesh_calls s
   \<and> image_sample_calls s' = image_sample_calls s \<and> disk s' = disk s"
  by (auto simp: save_to_gcs_def Let_def split: option.splits sum.splits)

lemma save_gcs_or_local_frame:
  assumes "save_gcs_or_local env s user_id filename content = (r, s')"
  shows "sample_calls s' = sample_calls s \<and> mesh_calls s' = mesh_calls s
   \<and> image_sample_calls s' = image_sample_calls s"
proof -
  obtain d s1 where g: "(if gcs_client s \<noteq> None
            then save_to_gcs env s content
                   (get_storage_path (now_storage_path env) user_id filename) ''model/ply''
            else (None, s)) = (d, s1)"
    by (cases "(if gcs_client s \<noteq> None
            then save_to_gcs env s content
                   (get_storage_path (now_storage_path env) user_id filename) ''model/ply''
            else (None, s))") auto
  then have f1: "sample_calls s1 = sample_calls s \<and> mesh_calls s1 = mesh_calls s
   \<and> image_sample_calls s1 = image_sample_calls s"
    by (auto split: if_splits dest: save_to_gcs_frame)
  from assms g have "s' = s1 \<or> (\<exists>fs. s' = s1\<lparr>disk := fs\<rparr>)"
    unfolding save_gcs_or_local_def
    by (auto split: if_splits prod.splits sum.splits)
  with f1 show ?thesis by auto
qed

lemma pointcloud_to_mesh_frame:
  "pointcloud_to_mesh env s pc g = (r, s') \<Longrightarrow>
   sample_calls s' = sample_calls s \<and> image_sample_calls s' = image_sample_calls s"
  by (auto simp: pointcloud_to_mesh_def split: if_splits)

lemma text_to_3d_try_samples:
  assumes "models_ready s" "text_sampler s \<noteq> None"
  shows "sample_calls (snd (text_to_3d_try env s req request)) = sample_calls s + 1"
proof -
  let ?s1 = "s\<lparr>sample_calls := sample_calls s + 1\<rparr>"
  have g: "generate_from_text env s (tr_prompt request) =
             (sample_batch_text env (tr_prompt request), ?s1)"
    using assms by (rule generate_from_text_ready)
  show ?thesis
  proof (cases "sample_batch_text env (tr_prompt request)")
    case (Inl e)
    with g show ?thesis by (simp add: text_to_3d_try_def Let_def)
  next
    case (Inr pc)
    show ?thesis
    proof (cases "tr_format request = ''mesh''")
      case True
      obtain rm s2 where m: "pointcloud_to_mesh env ?s1 pc (tr_grid_size request) = (rm, s2)"
        by (cases "pointcloud_to_mesh env ?s1 pc (tr_grid_size request)") auto
      then have s2: "sample_calls s2 = sample_calls s + 1"
        by (auto dest: pointcloud_to_mesh_frame)
      show ?thesis
      proof (cases rm)
        case (Inl e)
        with g Inr True m s2 show ?thesis by (simp add: text_to_3d_try_def Let_def)
      next
        case mesh: (Inr mesh)
        obtain rs s3 where st: "save_gcs_or_local env s2
            (derived_user_id env req (tr_user_id request))
            (''mesh_'' @ safe_prompt_of (tr_prompt request) @ ''_''
              @ strftime (now_timestamp env) ''%Y%m%d_%H%M%S'' @ ''_''
              @ take 8 (uuid4 env) @ ''.ply'')
            (write_ply env mesh) = (rs, s3)"
          by (metis surj_pair)
        then have "sample_calls s3 = sample_calls s2"
          by (auto dest: save_gcs_or_local_frame)
        with g Inr True m mesh st s2 show ?thesis
          by (cases rs) (auto simp: text_to_3d_try_def Let_def split: prod.splits)
      qed
    next
      case False
      obtain w stopped where pw: "ply_write env pc = (w, stopped)"
        by (metis surj_pair)
      show ?thesis
      proof (cases stopped)
        case (Some e)
        with g Inr False pw show ?thesis by (simp add: text_to_3d_try_def Let_def)
      next
        case None
        obtain rs s3 where st: "save_gcs_or_local env ?s1
            (derived_user_id env req (tr_user_id request))
            (''pointcloud_'' @ safe_prompt_of (tr_prompt request) @ ''_''
              @ strftime (now_timestamp env) ''%Y%m%d_%H%M%S'' @ ''_''
              @ take 8 (uuid4 env) @ ''.ply'')
            (utf8_encode w) = (rs, s3)"
          by (metis surj_pair)
        then have "sample_calls s3 = sample_calls ?s1"
          by (auto dest: save_gcs_or_local_frame)
        with g Inr False pw None st show ?thesis
          by (cases rs) (auto simp: text_to_3d_try_def Let_def split: prod.splits)
      qed
    qed
  qed
qed

lemma text_to_3d_authorized:
  assumes "verify_secret_key (SECRET_KEY s) (map_of (headers req) ''authorization'') = Inr True"
    and "get_forwarded_ip req = Inr ip"
  shows "text_to_3d env s req request =
     (case text_to_3d_try env s req request of
        (Inl e, s') \<Rightarrow> (Inl (HTTPException 500 (str_exc env e)), s')
      | (Inr r, s') \<Rightarrow> (Inr r, s'))"
  using assms by (simp add: text_to_3d_def)

lemma text_to_3d_try_not_ready:
  "\<not> models_ready s \<Longrightarrow>
   text_to_3d_try env s req request = (Inl (HTTPException 503 ''Models not ready''), s)"
  by (simp add: text_to_3d_try_def generate_from_text_not_ready Let_def)

text \<open>
  C1 fails on the code. While the models are not ready, \<open>text_to_3d\<close> always ends in an
  error and leaves the state as it was, so the sampler is not invoked. But for a caller
  with a valid credential the error is not status 503: \<open>generate_from_text\<close> raises 503
  inside the handler's \<open>try\<close>, and \<open>except Exception\<close> replaces it by status 500, carrying
  the text of the 503 as its detail.
\<close>

theorem text_to_3d_not_ready:
  assumes "\<not> models_ready s"
  shows "(\<exists>e. fst (text_to_3d env s req request) = Inl e)
    \<and> snd (text_to_3d env s req request) = s
    \<and> (verify_secret_key (SECRET_KEY s) (map_of (headers req) ''authorization'') = Inr True
        \<and> (\<exists>ip. get_forwarded_ip req = Inr ip) \<longrightarrow>
        fst (text_to_3d env s req request) =
          Inl (HTTPException 500 (str_exc env (HTTPException 503 ''Models not ready''))))"
proof -
  note t = text_to_3d_try_not_ready [OF assms, of env req request]
  have "(\<exists>e. fst (text_to_3d env s req request) = Inl e)
    \<and> snd (text_to_3d env s req request) = s"
    by (simp add: text_to_3d_def t split: sum.splits)
  moreover have "verify_secret_key (SECRET_KEY s) (map_of (headers req) ''authorization'') = Inr True
        \<and> (\<exists>ip. get_forwarded_ip req = Inr ip) \<longrightarrow>
        fst (text_to_3d env s req request) =
          Inl (HTTPException 500 (str_exc env (HTTPException 503 ''Models not ready'')))"
    by (auto simp: text_to_3d_def t)
  ultimately show ?thesis by blast
qed

text \<open>
  The theorem on the sample process before its models are ready, for an authorized
  request.
\<close>

theorem text_to_3d_not_ready_witness:
  "\<not> models_ready (sample_state\<lparr>models_ready := False\<rparr>)
   \<and> fst (text_to_3d sample_env (sample_state\<lparr>models_ready := False\<rparr>) sample_request
            \<lparr>tr_prompt = ''a blue cube'', tr_user_id = None, tr_format = ''mesh'',
             tr_grid_size = 32, tr_num_samples = 1\<rparr>)
       = Inl (HTTPException 500 ''503: Models not ready'')
   \<and> sample_calls (snd (text_to_3d sample_env (sample_state\<lparr>models_ready := False\<rparr>)
            sample_request
            \<lparr>tr_prompt = ''a blue cube'', tr_user_id = None, tr_format = ''mesh'',
             tr_grid_size = 32, tr_num_samples = 1\<rparr>)) = 0"
proof -
  have nr: "\<not> models_ready (sample_state\<lparr>models_ready := False\<rparr>)"
    by simp
  have a: "verify_secret_key (SECRET_KEY (sample_state\<lparr>models_ready := False\<rparr>))
             (map_of (headers sample_request) ''authorization'') = Inr True"
    by code_simp
  have i: "get_forwarded_ip sample_request = Inr ''203.0.113.7''"
    by code_simp
  have e: "str_exc sample_env (HTTPException 503 ''Models not ready'') = ''503: Models not ready''"
    by code_simp
  have c: "sample_calls (sample_state\<lparr>models_ready := False\<rparr>) = 0"
    by (simp add: sample_state_def)
  show ?thesis
    using text_to_3d_not_ready [OF nr, of sample_env sample_request
        "\<lparr>tr_prompt = ''a blue cube'', tr_user_id = None, tr_format = ''mesh'',
             tr_grid_size = 32, tr_num_samples = 1\<rparr>"] a i e c
    by simp
qed

text \<open>
  C5 (amended). \<open>text_to_3d\<close> never looks at \<open>grid_size\<close>: for an authorized request on
  a ready process the sampler is invoked once whatever the grid size is; for a format
  other than \<open>mesh\<close> the grid size has no effect on the outcome at all; for \<open>mesh\<close> it is
  handed unchanged to the mesh reconstruction, after sampling.
\<close>

theorem text_to_3d_grid_size_unchecked:
  "(verify_secret_key (SECRET_KEY s) (map_of (headers req) ''authorization'') = Inr True
      \<and> get_forwarded_ip req = Inr ip \<and> models_ready s \<and> text_sampler s \<noteq> None \<longrightarrow>
      sample_calls (snd (text_to_3d env s req request)) = sample_calls s + 1)
   \<and> (tr_format request \<noteq> ''mesh'' \<longrightarrow>
        text_to_3d env s req (request\<lparr>tr_grid_size := g\<rparr>) = text_to_3d env s req request)
   \<and> (verify_secret_key (SECRET_KEY s) (map_of (headers req) ''authorization'') = Inr True
        \<and> get_forwarded_ip req = Inr ip \<and> models_ready s \<and> text_sampler s \<noteq> None
        \<and> sdf_model s \<noteq> None \<and> tr_format request = ''mesh''
        \<and> sample_batch_text env (tr_prompt request) = Inr pc \<longrightarrow>
        mesh_calls (snd (text_to_3d env s req request)) = tr_grid_size request # mesh_calls s)"
proof (intro conjI impI)
  assume h: "verify_secret_key (SECRET_KEY s) (map_of (headers req) ''authorization'') = Inr True
      \<and> get_forwarded_ip req = Inr ip \<and> models_ready s \<and> text_sampler s \<noteq> None"
  then have "snd (text_to_3d env s req request) = snd (text_to_3d_try env s req request)"
    by (auto simp: text_to_3d_authorized split: prod.splits sum.splits)
  with h show "sample_calls (snd (text_to_3d env s req request)) = sample_calls s + 1"
    by (simp add: text_to_3d_try_samples)
next
  assume "tr_format request \<noteq> ''mesh''"
  then have "text_to_3d_try env s req (request\<lparr>tr_grid_size := g\<rparr>)
           = text_to_3d_try env s req request"
    by (simp add: text_to_3d_try_def Let_def split: prod.splits sum.splits option.splits)
  then show "text_to_3d env s req (request\<lparr>tr_grid_size := g\<rparr>) = text_to_3d env s req request"
    by (simp add: text_to_3d_def split: sum.splits)
next
  assume h: "verify_secret_key (SECRET_KEY s) (map_of (headers req) ''authorization'') = Inr True
        \<and> get_forwarded_ip req = Inr ip \<and> models_ready s \<and> text_sampler s \<noteq> None
        \<and> sdf_model s \<noteq> None \<and> tr_format request = ''mesh''
        \<and> sample_batch_text env (tr_prompt request) = Inr pc"
  let ?s1 = "s\<lparr>sample_calls := sample_calls s + 1\<rparr>"
  let ?s2 = "?s1\<lparr>mesh_calls := tr_grid_size request # mesh_calls ?s1\<rparr>"
  have g: "generate_from_text env s (tr_prompt request) = (Inr pc, ?s1)"
    using h by (simp add: generate_from_text_ready)
  have m: "pointcloud_to_mesh env ?s1 pc (tr_grid_size request) =
             (marching_cubes_mesh env pc (tr_grid_size request), ?s2)"
    using h by (auto simp: pointcloud_to_mesh_def)
  have "mesh_calls (snd (text_to_3d_try env s req request)) = tr_grid_size request # mesh_calls s"
  proof (cases "marching_cubes_mesh env pc (tr_grid_size request)")
    case (Inl e)
    with g m h show ?thesis by (simp add: text_to_3d_try_def Let_def)
  next
    case (Inr mesh)
    obtain rs s3 where st: "save_gcs_or_local env ?s2
            (derived_user_id env req (tr_user_id request))
            (''mesh_'' @ safe_prompt_of (tr_prompt request) @ ''_''
              @ strftime (now_timestamp env) ''%Y%m%d_%H%M%S'' @ ''_''
              @ take 8 (uuid4 env) @ ''.ply'')
            (write_ply env mesh) = (rs, s3)"
      by (metis surj_pair)
    then have "mesh_calls s3 = mesh_calls ?s2"
      by (auto dest: save_gcs_or_local_frame)
    with g m h Inr st show ?thesis
      by (cases rs) (auto simp: text_to_3d_try_def Let_def split: prod.splits)
  qed
  moreover from h have "snd (text_to_3d env s req request) = snd (text_to_3d_try env s req request)"
    by (auto simp: text_to_3d_authorized split: prod.splits sum.splits)
  ultimately show "mesh_calls (snd (text_to_3d env s req request)) = tr_grid_size request # mesh_calls s"
    by simp
qed

text \<open>
  The theorem on the sample process, for grid size 0.
\<close>

theorem text_to_3d_grid_size_unchecked_witness:
  "sample_calls (snd (text_to_3d sample_env sample_state sample_request
          \<lparr>tr_prompt = ''a blue cube'', tr_user_id = None, tr_format = ''mesh'',
           tr_grid_size = 0, tr_num_samples = 1\<rparr>)) = 1
   \<and> mesh_calls (snd (text_to_3d sample_env sample_state sample_request
          \<lparr>tr_prompt = ''a blue cube'', tr_user_id = None, tr_format = ''mesh'',
           tr_grid_size = 0, tr_num_samples = 1\<rparr>)) = [0]
   \<and> text_to_3d sample_env sample_state sample_request
          \<lparr>tr_prompt = ''a blue cube'', tr_user_id = None, tr_format = ''pointcloud'',
           tr_grid_size = 0, tr_num_samples = 1\<rparr>
       = text_to_3d sample_env sample_state sample_request
          \<lparr>tr_prompt = ''a blue cube'', tr_user_id = None, tr_format = ''pointcloud'',
           tr_grid_size = 32, tr_num_samples = 1\<rparr>"
proof -
  have a: "verify_secret_key (SECRET_KEY sample_state)
             (map_of (headers sample_request) ''authorization'') = Inr True"
    by code_simp
  have i: "get_forwarded_ip sample_request = Inr ''203.0.113.7''"
    by code_simp
  have r: "models_ready sample_state" "text_sampler sample_state \<noteq> None"
      "sdf_model sample_state \<noteq> None" "sample_calls sample_state = 0"
      "mesh_calls sample_state = []"
    by (simp_all add: sample_state_def)
  have p: "sample_batch_text sample_env ''a blue cube'' = Inr sample_cloud"
    by (simp add: sample_env_def)
  have f: "''pointcloud'' \<noteq> ''mesh''"
    by simp
  note t = text_to_3d_grid_size_unchecked
    [where env = sample_env and s = sample_state and req = sample_request
       and ip = "''203.0.113.7''" and pc = sample_cloud]
  have "sample_calls (snd (text_to_3d sample_env sample_state sample_request
          \<lparr>tr_prompt = ''a blue cube'', tr_user_id = None, tr_format = ''mesh'',
           tr_grid_size = 0, tr_num_samples = 1\<rparr>)) = 1"
    using t [where request = "\<lparr>tr_prompt = ''a blue cube'', tr_user_id = None,
          tr_format = ''mesh'', tr_grid_size = 0, tr_num_samples = 1\<rparr>" and g = 0] a i r
    by simp
  moreover have "mesh_calls (snd (text_to_3d sample_env sample_state sample_request
          \<lparr>tr_prompt = ''a blue cube'', tr_user_id = None, tr_format = ''mesh'',
           tr_grid_size = 0, tr_num_samples = 1\<rparr>)) = [0]"
    using t [where request = "\<lparr>tr_prompt = ''a blue cube'', tr_user_id = None,
          tr_format = ''mesh'', tr_grid_size = 0, tr_num_samples = 1\<rparr>" and g = 0] a i r p
    by simp
  moreover have "text_to_3d sample_env sample_state sample_request
          \<lparr>tr_prompt = ''a blue cube'', tr_user_id = None, tr_format = ''pointcloud'',
           tr_grid_size = 0, tr_num_samples = 1\<rparr>
       = text_to_3d sample_env sample_state sample_request
          \<lparr>tr_prompt = ''a blue cube'', tr_user_id = None, tr_format = ''pointcloud'',
           tr_grid_size = 32, tr_num_samples = 1\<rparr>"
    using t [where request = "\<lparr>tr_prompt = ''a blue cube'', tr_user_id = None,
          tr_format = ''pointcloud'', tr_grid_size = 32, tr_num_samples = 1\<rparr>" and g = 0] f
    by simp
  ultimately show ?thesis by simp
qed

text \<open>
  C5 as stated fails: a point-cloud request with grid size 0 succeeds, and a mesh
  request with grid size -5 reaches the sampler and then the mesh reconstruction,
  which is handed -5.
\<close>

theorem text_to_3d_grid_size_counterexample:
  "fst (text_to_3d sample_env sample_state sample_request
          \<lparr>tr_prompt = ''a blue cube'', tr_user_id = None, tr_format = ''pointcloud'',
           tr_grid_size = 0, tr_num_samples = 1\<rparr>)
     = Inr \<lparr>gr_success = True, gr_message = ''Generated point cloud: a blue cube'',
            gr_file_url = Some ''/download/pointcloud_a blue cube_20250102_030405_1a2b3c4d.ply'',
            gr_download_url = Some ''/download/pointcloud_a blue cube_20250102_030405_1a2b3c4d.ply'',
            gr_user_id = Some ''user_90015098'', gr_vertices = Some 2, gr_faces = Some 0,
            gr_expires_at = Some ''2025-02-01T03:04:05''\<rparr>
   \<and> sample_calls (snd (text_to_3d sample_env sample_state sample_request
          \<lparr>tr_prompt = ''a blue cube'', tr_user_id = None, tr_format = ''mesh'',
           tr_grid_size = - 5, tr_num_samples = 1\<rparr>)) = 1
   \<and> mesh_calls (snd (text_to_3d sample_env sample_state sample_request
          \<lparr>tr_prompt = ''a blue cube'', tr_user_id = None, tr_format = ''mesh'',
           tr_grid_size = - 5, tr_num_samples = 1\<rparr>)) = [- 5]"
  by code_simp

subsection \<open>Readiness gate and the image capability\<close>

lemma run_steps_append:
  "run_steps (fs @ gs) s =
     (case run_steps fs s of (Some e, s') \<Rightarrow> (Some e, s') | (None, s') \<Rightarrow> run_steps gs s')"
  by (induction fs arbitrary: s) (auto split: sum.splits)

lemma text_steps_load:
  "text_and_sdf_load L \<Longrightarrow>
   run_steps (text_steps L) s =
     (None, s\<lparr>text_model := Some ''base40M-textvec'', text_sampler := Some ''base40M-textvec''\<rparr>)"
  by (simp add: text_and_sdf_load_def text_steps_def step_def)

lemma sdf_steps_load:
  "text_and_sdf_load L \<Longrightarrow>
   run_steps (sdf_steps L) s = (None, s\<lparr>sdf_model := Some ''sdf''\<rparr>)"
  by (simp add: text_and_sdf_load_def sdf_steps_def step_def)

lemma image_steps_fail:
  assumes "image_load_fails L"
  shows "\<exists>e s'. run_steps (image_steps L) s = (Some e, s')
           \<and> text_sampler s' = text_sampler s \<and> text_model s' = text_model s
           \<and> image_sampler s' = image_sampler s
           \<and> sdf_model s' = sdf_model s \<and> models_ready s' = models_ready s"
  using assms
  by (auto simp: image_load_fails_def image_steps_def step_def split: option.splits)

lemma load_models_without_image:
  assumes t: "text_and_sdf_load L" and i: "image_load_fails L"
  shows "fst (load_models L s) = Inr ()
    \<and> models_ready (snd (load_models L s))
    \<and> text_sampler (snd (load_models L s)) = Some ''base40M-textvec''
    \<and> sdf_model (snd (load_models L s)) = Some ''sdf''
    \<and> image_model (snd (load_models L s)) = None
    \<and> image_sampler (snd (load_models L s)) = None"
proof -
  let ?s0 = "s\<lparr>device := Some (get_device L)\<rparr>"
  let ?s1 = "?s0\<lparr>text_model := Some ''base40M-textvec'', text_sampler := Some ''base40M-textvec''\<rparr>"
  obtain e s2 where r: "run_steps (image_steps L) ?s1 = (Some e, s2)"
    and f: "text_sampler s2 = text_sampler ?s1"
    using image_steps_fail [OF i, of ?s1] by blast
  let ?s3 = "s2\<lparr>image_model := None, image_sampler := None\<rparr>"
  let ?s4 = "?s3\<lparr>sdf_model := Some ''sdf''\<rparr>"
  have o: "load_image_optional L ?s1 = Inr ?s3"
    using r by (simp add: load_image_optional_def)
  have "run_steps (text_steps L @ [load_image_optional L] @ sdf_steps L
              @ [\<lambda>s. Inr (s\<lparr>models_ready := True\<rparr>)]) ?s0
        = (None, ?s4\<lparr>models_ready := True\<rparr>)"
    by (simp add: run_steps_append text_steps_load [OF t] sdf_steps_load [OF t] o)
  then have "load_models L s = (Inr (), ?s4\<lparr>models_ready := True\<rparr>)"
    by (simp add: load_models_def)
  with f show ?thesis by simp
qed

lemma load_models_fast_without_image:
  assumes t: "text_and_sdf_load L" and i: "image_load_fails L"
  shows "(\<exists>e. fst (load_models_fast L s) = Inl e) \<and> \<not> models_ready (snd (load_models_fast L s))"
proof -
  let ?s1 = "s\<lparr>text_model := Some ''base40M-textvec'', text_sampler := Some ''base40M-textvec''\<rparr>"
  obtain e s2 where r: "run_steps (image_steps L) ?s1 = (Some e, s2)"
    using image_steps_fail [OF i, of ?s1] by blast
  have "run_steps (text_steps L @ image_steps L @ sdf_steps L
              @ [\<lambda>s. Inr (s\<lparr>models_ready := True\<rparr>), \<lambda>s. Inr (setup_gcs L s)]) s
        = (Some e, s2)"
    by (simp add: run_steps_append text_steps_load [OF t] r)
  then have "load_models_fast L s = (Inl e, s2\<lparr>models_ready := False\<rparr>)"
    by (simp add: load_models_fast_def)
  then show ?thesis by simp
qed

lemma image_to_3d_local_no_model:
  "image_model s = None \<Longrightarrow>
   image_to_3d_local env s upload user_id grid_size =
     (Inl (HTTPException 500
        (str_exc env (HTTPException 503 ''Image model not available. Use text-to-3D instead.''))), s)"
  by (simp add: image_to_3d_local_def image_to_3d_local_try_def)

lemma image_to_3d_no_sampler:
  assumes "image_sampler s = None"
  shows "(\<exists>e. fst (image_to_3d env s req upload format grid_size given) = Inl e)
    \<and> snd (image_to_3d env s req upload format grid_size given) = s"
proof -
  have "image_to_3d_try env s req upload format grid_size given =
          (Inl (HTTPException 503 ''Image model not ready''), s)"
    using assms by (simp add: image_to_3d_try_def)
  then show ?thesis
    by (simp add: image_to_3d_def split: sum.splits)
qed

text \<open>
  C4 (amended). On a host where the text models and the SDF model load and some statement
  of the image model's loading raises:
  \<^item> \<open>load_models\<close> of local_server.py returns normally with \<open>models_ready\<close> set, the text
    sampler in place and both image globals \<open>None\<close>, and \<open>generate_from_text\<close> then
    passes its guard and invokes the sampler;
  \<^item> \<open>load_models_fast\<close> of server.py raises and leaves \<open>models_ready\<close> false: there the
    image model is not optional.
  In both variants an image request that finds the image model (local) or the image
  sampler (server) missing ends in an error and leaves the state as it was, so the
  image sampler is not invoked. Which status the caller sees is not part of this
  statement.
\<close>

theorem image_capability_optional_locally:
  "(text_and_sdf_load L \<and> image_load_fails L \<longrightarrow>
      fst (load_models L s) = Inr ()
      \<and> models_ready (snd (load_models L s))
      \<and> text_sampler (snd (load_models L s)) \<noteq> None
      \<and> image_model (snd (load_models L s)) = None
      \<and> image_sampler (snd (load_models L s)) = None
      \<and> generate_from_text env (snd (load_models L s)) prompt =
          (sample_batch_text env prompt,
           (snd (load_models L s))\<lparr>sample_calls := sample_calls (snd (load_models L s)) + 1\<rparr>))
   \<and> (text_and_sdf_load L \<and> image_load_fails L \<longrightarrow>
        (\<exists>e. fst (load_models_fast L s) = Inl e) \<and> \<not> models_ready (snd (load_models_fast L s)))
   \<and> (image_model s = None \<longrightarrow>
        (\<exists>e. fst (image_to_3d_local env s upload user_id grid_size) = Inl e)
        \<and> snd (image_to_3d_local env s upload user_id grid_size) = s)
   \<and> (image_sampler s = None \<longrightarrow>
        (\<exists>e. fst (image_to_3d env s req upload format grid_size given) = Inl e)
        \<and> snd (image_to_3d env s req upload format grid_size given) = s)"
proof (intro conjI impI)
  assume h: "text_and_sdf_load L \<and> image_load_fails L"
  note l = load_models_without_image [of L s] h
  from l show "fst (load_models L s) = Inr ()" by simp
  from l show r: "models_ready (snd (load_models L s))" by simp
  from l show t: "text_sampler (snd (load_models L s)) \<noteq> None" by simp
  from l show "image_model (snd (load_models L s)) = None" by simp
  from l show "image_sampler (snd (load_models L s)) = None" by simp
  from r t show "generate_from_text env (snd (load_models L s)) prompt =
          (sample_batch_text env prompt,
           (snd (load_models L s))\<lparr>sample_calls := sample_calls (snd (load_models L s)) + 1\<rparr>)"
    by (rule generate_from_text_ready)
next
  assume h: "text_and_sdf_load L \<and> image_load_fails L"
  then show "\<exists>e. fst (load_models_fast L s) = Inl e"
    using load_models_fast_without_image [of L s] by simp
  from h show "\<not> models_ready (snd (load_models_fast L s))"
    using load_models_fast_without_image [of L s] by simp
next
  assume h: "image_model s = None"
  then show "\<exists>e. fst (image_to_3d_local env s upload user_id grid_size) = Inl e"
    by (simp add: image_to_3d_local_no_model)
  from h show "snd (image_to_3d_local env s upload user_id grid_size) = s"
    by (simp add: image_to_3d_local_no_model)
next
  assume h: "image_sampler s = None"
  then show "\<exists>e. fst (image_to_3d env s req upload format grid_size given) = Inl e"
    using image_to_3d_no_sampler by blast
  from h show "snd (image_to_3d env s req upload format grid_size given) = s"
    using image_to_3d_no_sampler by blast
qed

text \<open>
  The theorem on a host whose image checkpoint is missing, starting from a process
  that has loaded nothing.
\<close>

theorem image_capability_optional_locally_witness:
  "fst (load_models sample_loader unloaded_state) = Inr ()
   \<and> models_ready (snd (load_models sample_loader unloaded_state))
   \<and> image_sampler (snd (load_models sample_loader unloaded_state)) = None
   \<and> fst (generate_from_text sample_env (snd (load_models sample_loader unloaded_state))
             ''a blue cube'') = Inr sample_cloud
   \<and> \<not> models_ready (snd (load_models_fast sample_loader unloaded_state))
   \<and> (\<exists>e. fst (image_to_3d_local sample_env (snd (load_models sample_loader unloaded_state))
                  \<lparr>uf_filename = Some ''chair.png'', uf_data = ''png''\<rparr> ''local'' 32) = Inl e)
   \<and> (\<exists>e. fst (image_to_3d sample_env (sample_state\<lparr>image_sampler := None\<rparr>) sample_request
                  \<lparr>uf_filename = Some ''chair.png'', uf_data = ''png''\<rparr> ''mesh'' 32 None) = Inl e)"
proof -
  have t: "text_and_sdf_load sample_loader \<and> image_load_fails sample_loader"
    by (simp add: text_and_sdf_load_def image_load_fails_def sample_loader_def)
  have p: "sample_batch_text sample_env ''a blue cube'' = Inr sample_cloud"
    by (simp add: sample_env_def)
  note a = image_capability_optional_locally
    [where L = sample_loader and s = unloaded_state and env = sample_env
       and prompt = "''a blue cube''", THEN conjunct1, rule_format, OF t]
  note b = image_capability_optional_locally
    [where L = sample_loader and s = unloaded_state, THEN conjunct2, THEN conjunct1,
     rule_format, OF t]
  have m: "image_model (snd (load_models sample_loader unloaded_state)) = None"
    using a by simp
  note c = image_capability_optional_locally
    [where s = "snd (load_models sample_loader unloaded_state)" and env = sample_env
       and upload = "\<lparr>uf_filename = Some ''chair.png'', uf_data = ''png''\<rparr>"
       and user_id = "''local''" and grid_size = 32,
     THEN conjunct2, THEN conjunct2, THEN conjunct1, rule_format, OF m]
  have n: "image_sampler (sample_state\<lparr>image_sampler := None\<rparr>) = None"
    by simp
  note d = image_capability_optional_locally
    [where s = "sample_state\<lparr>image_sampler := None\<rparr>" and env = sample_env
       and req = sample_request
       and upload = "\<lparr>uf_filename = Some ''chair.png'', uf_data = ''png''\<rparr>"
       and format = "''mesh''" and grid_size = 32 and given = None,
     THEN conjunct2, THEN conjunct2, THEN conjunct2, rule_format, OF n]
  from a b c d p show ?thesis by simp
qed

text \<open>
  C4 as stated fails for server.py: with the image checkpoint missing,
  \<open>load_models_fast\<close> raises and the process is not ready, although the text sampler
  had been built.
\<close>

theorem image_failure_blocks_ready_counterexample:
  "fst (load_models_fast sample_loader unloaded_state)
     = Inl (OSError ''checkpoint base1B is not in the cache'')
   \<and> \<not> models_ready (snd (load_models_fast sample_loader unloaded_state))
   \<and> text_sampler (snd (load_models_fast sample_loader unloaded_state)) = Some ''base40M-textvec''"
  by code_simp

end
